theory Spec2Isabelle
  imports Complex_Main "HOL-Library.Word" "HOL-Library.AList" "HOL-Library.Multiset"
begin

text \<open>
  The Smart Proxy of MetaMCP: the class \<open>SmartMCPProxy\<close> (the tool table, the lexical
  index, \<open>discover\<close> and \<open>execute\<close>, the truncation engine and the dynamic-limit
  selector), the \<open>EmbeddingClient\<close> and the \<open>ToolEmbeddingsRepository\<close>, as functions on
  explicit states. First the model, function by function under the names of the
  source; then the rules of the specification that the model is compared with, and
  concrete scenarios; then the properties.
\<close>

section \<open>JavaScript values\<close>

text \<open>
  A JavaScript string is a sequence of UTF-16 code units; \<open>length\<close>, \<open>indexOf\<close>,
  \<open>substring\<close>, \<open>split\<close> and \<open>trim\<close> all work on code units. The string literals of the
  source are ASCII and are written through \<open>str\<close>.
\<close>

type_synonym jsstring = "16 word list"

definition str :: "string \<Rightarrow> jsstring" where
  "str s = map (\<lambda>c. of_nat (of_char c)) s"

text \<open>
  \<open>s.indexOf(searchString, position)\<close>: the position is clamped to the length of \<open>s\<close>;
  the result is the first index from there at which \<open>searchString\<close> occurs, and \<open>None\<close>
  stands for \<open>-1\<close>. The empty string occurs at every index up to the length.
\<close>

definition indexOf :: "'a list \<Rightarrow> 'a list \<Rightarrow> nat \<Rightarrow> nat option" where
  "indexOf s searchString position =
     find (\<lambda>k. take (length searchString) (drop k s) = searchString)
       [min position (length s) ..< Suc (length s - length searchString)]"

lemma find_Some_member: "find P xs = Some x \<Longrightarrow> P x \<and> x \<in> set xs"
  by (induction xs) (auto split: if_splits)

lemma indexOf_SomeD:
  assumes "indexOf s p pos = Some k"
  shows "min pos (length s) \<le> k" and "k + length p \<le> length s"
    and "take (length p) (drop k s) = p"
proof -
  from assms have "k \<in> set [min pos (length s) ..< Suc (length s - length p)]"
    and m: "take (length p) (drop k s) = p"
    unfolding indexOf_def by (auto dest: find_Some_member)
  then have lo: "min pos (length s) \<le> k" and hi: "k \<le> length s - length p"
    by (auto simp del: upt_Suc)
  from lo show "min pos (length s) \<le> k" .
  from m show "take (length p) (drop k s) = p" .
  from arg_cong[OF m, of length] have "length p \<le> length s - k"
    by simp
  with hi show "k + length p \<le> length s"
    by (cases "length p = 0") auto
qed

text \<open>
  \<open>s.trim()\<close> removes white space and line terminators from both ends.
\<close>

definition is_whitespace :: "16 word \<Rightarrow> bool" where
  "is_whitespace c \<longleftrightarrow>
     c \<in> {0x0009, 0x000A, 0x000B, 0x000C, 0x000D, 0x0020, 0x00A0, 0x1680,
          0x2028, 0x2029, 0x202F, 0x205F, 0x3000, 0xFEFF}
     \<or> (0x2000 \<le> c \<and> c \<le> 0x200A)"

definition trim :: "jsstring \<Rightarrow> jsstring" where
  "trim s = rev (dropWhile is_whitespace (rev (dropWhile is_whitespace s)))"

text \<open>
  \<open>s.split(separator)\<close>: the pieces between the successive occurrences of the separator,
  scanning from the left; the empty separator splits into code units.
\<close>

function split :: "jsstring \<Rightarrow> jsstring \<Rightarrow> jsstring list" where
  "split s separator =
     (if separator = [] then map (\<lambda>c. [c]) s
      else case indexOf s separator 0 of
             None \<Rightarrow> [s]
           | Some k \<Rightarrow> take k s # split (drop (k + length separator) s) separator)"
  by pat_completeness auto
termination
proof (relation "measure (\<lambda>(s, separator). length s)")
  show "wf (measure (\<lambda>(s, separator). length s))" by simp
next
  fix s separator :: jsstring and k :: nat
  assume sep: "separator \<noteq> []" and k: "indexOf s separator 0 = Some k"
  from sep obtain n where "length separator = Suc n"
    by (cases separator) auto
  with indexOf_SomeD(2)[OF k]
  show "((drop (k + length separator) s, separator), (s, separator))
      \<in> measure (\<lambda>(s, separator). length s)"
    by simp
qed

declare split.simps [simp del]

text \<open>\<open>xs.join(separator)\<close> on an array of strings.\<close>

fun join :: "jsstring \<Rightarrow> jsstring list \<Rightarrow> jsstring" where
  "join separator [] = []"
| "join separator [x] = x"
| "join separator (x # y # ys) = x @ separator @ join separator (y # ys)"

text \<open>
  A string that may be \<open>undefined\<close> is a \<open>jsstring option\<close>. \<open>undefined\<close> and the empty
  string are the falsy ones; \<open>a || b\<close> on strings is \<open>or_else\<close>.
\<close>

fun truthy :: "jsstring option \<Rightarrow> bool" where
  "truthy None = False"
| "truthy (Some s) = (s \<noteq> [])"

definition or_else :: "jsstring option \<Rightarrow> jsstring \<Rightarrow> jsstring" where
  "or_else a b = (case a of None \<Rightarrow> b | Some s \<Rightarrow> if s = [] then b else s)"

text \<open>
  Scores and thresholds are JavaScript numbers, that is IEEE 754 binary64 values. A
  finite number is the real that it denotes; the results of an operation that are not
  finite numbers are kept apart. Subtraction and division give the exact result rounded
  to the nearest binary64 value, ties to the even significand, as the standard
  prescribes; comparison is exact. Signed zeros are not distinguished: a zero divisor
  is taken as \<open>+0\<close>.
\<close>

datatype jsnum = Finite real | PosInfinity | NegInfinity | NaN

text \<open>The binary exponent of a positive real: \<open>2 ^ binade x \<le> x < 2 ^ (binade x + 1)\<close>.\<close>

function binade :: "real \<Rightarrow> int" where
  "binade x =
     (if x \<le> 0 then 0
      else if 2 \<le> x then binade (x / 2) + 1
      else if x < 1 then binade (x * 2) - 1
      else 0)"
  by pat_completeness auto
termination
proof (relation "measure (\<lambda>x. if 1 \<le> x then nat \<lfloor>x\<rfloor> else nat \<lfloor>1 / x\<rfloor> + 1)")
  show "wf (measure (\<lambda>x::real. if 1 \<le> x then nat \<lfloor>x\<rfloor> else nat \<lfloor>1 / x\<rfloor> + 1))"
    by simp
next
  fix x :: real
  assume "\<not> x \<le> 0" and x: "2 \<le> x"
  have "\<lfloor>x / 2\<rfloor> < \<lfloor>x\<rfloor>"
    using x by linarith
  moreover have "0 < \<lfloor>x\<rfloor>"
    using x by linarith
  ultimately
  show "(x / 2, x) \<in> measure (\<lambda>x. if 1 \<le> x then nat \<lfloor>x\<rfloor> else nat \<lfloor>1 / x\<rfloor> + 1)"
    using x by simp
next
  fix x :: real
  assume pos: "\<not> x \<le> 0" and "\<not> 2 \<le> x" and x: "x < 1"
  define y where "y = 1 / x"
  have y: "1 < y"
    using pos x by (simp add: y_def)
  have half: "1 / (x * 2) = y / 2"
    by (simp add: y_def)
  show "(x * 2, x) \<in> measure (\<lambda>x. if 1 \<le> x then nat \<lfloor>x\<rfloor> else nat \<lfloor>1 / x\<rfloor> + 1)"
  proof (cases "1 \<le> x * 2")
    case True
    then have "x * 2 < 2"
      using x by simp
    then have "\<lfloor>x * 2\<rfloor> = 1"
      using True by linarith
    moreover have "1 \<le> \<lfloor>y\<rfloor>"
      using y by linarith
    ultimately show ?thesis
      using True x unfolding y_def by simp
  next
    case False
    then have "2 < y"
      using pos by (simp add: y_def field_simps)
    then have "nat \<lfloor>y / 2\<rfloor> < nat \<lfloor>y\<rfloor>"
      by linarith
    moreover have "\<not> 1 \<le> x"
      using x by simp
    ultimately show ?thesis
      using False by (simp only: in_measure if_False half) (simp add: y_def)
  qed
qed

declare binade.simps [simp del]

definition pow2 :: "int \<Rightarrow> real" where
  "pow2 e = (if 0 \<le> e then 2 ^ nat e else 1 / 2 ^ nat (- e))"

text \<open>The nearest integer, the even one of the two when they are equally near.\<close>

definition round_half_even :: "real \<Rightarrow> int" where
  "round_half_even x =
     (let f = \<lfloor>x\<rfloor>; d = x - of_int f in
      if d < 1 / 2 then f else if 1 / 2 < d then f + 1 else if even f then f else f + 1)"

text \<open>
  Rounding to binary64: the significand has 53 bits, the exponent of a normal number
  lies between \<open>-1022\<close> and \<open>1023\<close>, the numbers below \<open>2 ^ -1022\<close> are the multiples of
  \<open>2 ^ -1074\<close>, and what rounds to \<open>2 ^ 1024\<close> or beyond is an infinity.
\<close>

definition round64 :: "real \<Rightarrow> jsnum" where
  "round64 x =
     (if x = 0 then Finite 0
      else
        (let e = max (binade \<bar>x\<bar>) (- 1022);
             quantum = pow2 (e - 52);
             n = round_half_even (\<bar>x\<bar> / quantum) in
         if 1023 < e \<or> (e = 1023 \<and> 2 ^ 53 \<le> n)
         then (if 0 < x then PosInfinity else NegInfinity)
         else Finite (if 0 < x then of_int n * quantum else - (of_int n * quantum))))"

text \<open>
  The number that a decimal literal of the source denotes, such as \<open>0.3\<close>: the binary64
  value nearest to it.
\<close>

definition double :: "real \<Rightarrow> real" where
  "double x = (case round64 x of Finite y \<Rightarrow> y | _ \<Rightarrow> x)"

text \<open>\<open>a - b\<close>, \<open>a / b\<close> and \<open>a > b\<close>.\<close>

definition js_sub :: "real \<Rightarrow> real \<Rightarrow> jsnum" where
  "js_sub a b = round64 (a - b)"

fun js_div :: "jsnum \<Rightarrow> real \<Rightarrow> jsnum" where
  "js_div (Finite a) b =
     (if b \<noteq> 0 then round64 (a / b)
      else if 0 < a then PosInfinity
      else if a < 0 then NegInfinity
      else NaN)"
| "js_div PosInfinity b = (if b < 0 then NegInfinity else PosInfinity)"
| "js_div NegInfinity b = (if b < 0 then PosInfinity else NegInfinity)"
| "js_div NaN b = NaN"

fun js_gt :: "jsnum \<Rightarrow> real \<Rightarrow> bool" where
  "js_gt (Finite x) t = (t < x)"
| "js_gt PosInfinity t = True"
| "js_gt NegInfinity t = False"
| "js_gt NaN t = False"

section \<open>Configuration\<close>

record DynamicLimitConfig =
  maxResults :: int
  dropThreshold :: real
  minScore :: real

definition DEFAULT_DYNAMIC_CONFIG :: DynamicLimitConfig where
  "DEFAULT_DYNAMIC_CONFIG =
     \<lparr>maxResults = 10, dropThreshold = double 0.30, minScore = double 0.3\<rparr>"

record EmbeddingTruncationConfig =
  delimiter :: jsstring
  occurrence :: int
  minLength :: int
  enabled :: bool

definition DEFAULT_TRUNCATION_CONFIG :: EmbeddingTruncationConfig where
  "DEFAULT_TRUNCATION_CONFIG =
     \<lparr>delimiter = [0x000A], occurrence = 1, minLength = 5, enabled = True\<rparr>"

datatype SearchMode = KEYWORD | EMBEDDINGS

section \<open>The dynamic-limit selector\<close>

text \<open>
  \<open>applyDynamicLimit<T extends { score: number }>\<close>: the elements are any record that
  extends \<open>scored\<close>.
\<close>

record scored =
  score :: real

text \<open>
  The \<open>for\<close> loop of \<open>applyDynamicLimit\<close>, with the loop variable \<open>i\<close> and the array
  \<open>filtered\<close> as arguments. Each \<open>break\<close> returns \<open>filtered\<close>; \<open>continue\<close> and the end
  of the body go to \<open>i + 1\<close>.
\<close>

function applyDynamicLimit_loop ::
  "DynamicLimitConfig \<Rightarrow> 'a scored_scheme list \<Rightarrow> nat \<Rightarrow> 'a scored_scheme list
     \<Rightarrow> 'a scored_scheme list" where
  "applyDynamicLimit_loop config results i filtered =
     (if i < length results then
        (let current = results ! i in
         if maxResults config \<le> int (length filtered) then filtered
         else if score current < minScore config then filtered
         else if i = 0 then applyDynamicLimit_loop config results (i + 1) (filtered @ [current])
         else
           (let previous = results ! (i - 1);
                drop = js_div (js_sub (score previous) (score current)) (score previous) in
            if js_gt drop (dropThreshold config) then filtered
            else applyDynamicLimit_loop config results (i + 1) (filtered @ [current])))
      else filtered)"
  by pat_completeness auto
termination
  by (relation "measure (\<lambda>(config, results, i, filtered). length results - i)") auto

declare applyDynamicLimit_loop.simps [simp del]

definition applyDynamicLimit ::
  "DynamicLimitConfig \<Rightarrow> 'a scored_scheme list \<Rightarrow> 'a scored_scheme list" where
  "applyDynamicLimit config results =
     (if length results = 0 then [] else applyDynamicLimit_loop config results 0 [])"

section \<open>The truncation engine\<close>

text \<open>
  The \<open>while (true)\<close> loop of \<open>truncateForEmbedding\<close>, with \<open>currentOccurrence\<close> and
  \<open>searchIndex\<close> as arguments. The loop has no bound of its own: where it never
  returns, the value is \<open>None\<close>.
\<close>

partial_function (option) truncate_scan ::
  "EmbeddingTruncationConfig \<Rightarrow> jsstring \<Rightarrow> int \<Rightarrow> nat \<Rightarrow> jsstring option" where
  "truncate_scan config description currentOccurrence searchIndex =
     (case indexOf description (delimiter config) searchIndex of
        None \<Rightarrow> Some description
      | Some foundIndex \<Rightarrow>
          (let currentOccurrence' = currentOccurrence + 1;
               searchIndex' = foundIndex + length (delimiter config) in
           if occurrence config \<le> currentOccurrence' then
             (let truncated = trim (take foundIndex description) in
              if minLength config \<le> int (length truncated) then Some truncated
              else truncate_scan config description currentOccurrence' searchIndex')
           else truncate_scan config description currentOccurrence' searchIndex'))"

declare truncate_scan.simps [code]

text \<open>
  \<open>truncateForEmbedding(description: string | undefined)\<close>, with \<open>this.truncationConfig\<close>
  as first argument. The outer \<open>option\<close> of the result is \<open>None\<close> where the call does not
  return.
\<close>

definition truncateForEmbedding ::
  "EmbeddingTruncationConfig \<Rightarrow> jsstring option \<Rightarrow> jsstring option" where
  "truncateForEmbedding config description =
     (case description of
        None \<Rightarrow> Some []
      | Some d \<Rightarrow>
          if d = [] then Some []
          else if \<not> enabled config then Some d
          else if occurrence config \<le> 0 then Some d
          else truncate_scan config d 0 0)"

section \<open>Errors\<close>

text \<open>
  Every \<open>throw\<close> of the source, and the \<open>TypeError\<close> of reading a property of
  \<open>undefined\<close>, is a value. \<open>ToolNotFound\<close> carries the message of the \<open>Error\<close>.
\<close>

datatype error =
    BatchTooLarge
  | EmbeddingsApiError nat jsstring jsstring
  | FetchRejected
  | TypeError
  | VectorStoreError
  | ToolNotFound jsstring

section \<open>The embedding client\<close>

record EmbeddingClient =
  apiKey :: jsstring
  model :: jsstring
  baseUrl :: jsstring

text \<open>
  The HTTP exchange with the embeddings endpoint. A request is the \<open>POST\<close> that
  \<open>generateEmbeddings\<close> sends; the service is a function from the request to what
  \<open>fetch\<close> gives back: a rejection (the network failed), or a response with its status
  and, when the body is the JSON the client expects, the parsed body: its \<open>data\<close>, and its
  \<open>usage\<close> (by the \<open>prompt_tokens\<close>) when it has one. \<open>response.ok\<close> is a status in the range
  200 to 299.
\<close>

record Request =
  url :: jsstring
  authorization :: jsstring
  body_model :: jsstring
  body_input :: "jsstring list"

record EmbeddingDatum =
  embedding :: "real list"
  index :: int

record EmbeddingResponse =
  data :: "EmbeddingDatum list"
  usage :: "nat option"

record HttpResponse =
  status :: nat
  statusText :: jsstring
  bodyText :: jsstring
  bodyJson :: "EmbeddingResponse option"

datatype FetchResult = Rejected | Responded HttpResponse

definition ok :: "HttpResponse \<Rightarrow> bool" where
  "ok response \<longleftrightarrow> 200 \<le> status response \<and> status response \<le> 299"

text \<open>
  \<open>generateEmbeddings(texts)\<close>; \<open>embeddings_request\<close> is the \<open>POST\<close> it sends. The result
  comes with the requests the call has sent.
  A body that is not the expected JSON makes \<open>response.json()\<close> or the reading of
  \<open>data.data\<close> throw, and a body without \<open>usage\<close> makes the logging line throw (both are
  \<open>TypeError\<close> here); the \<open>catch\<close> rethrows. \<open>Array.prototype.sort\<close> is
  stable, as \<open>sort_key\<close> is.
\<close>

definition embeddings_request :: "EmbeddingClient \<Rightarrow> jsstring list \<Rightarrow> Request" where
  "embeddings_request this texts =
     \<lparr>url = baseUrl this @ str ''/embeddings'',
      authorization = str ''Bearer '' @ apiKey this,
      body_model = model this,
      body_input = texts\<rparr>"

definition generateEmbeddings ::
  "(Request \<Rightarrow> FetchResult) \<Rightarrow> EmbeddingClient \<Rightarrow> jsstring list
     \<Rightarrow> (error + real list list) \<times> Request list" where
  "generateEmbeddings fetch this texts =
     (if length texts = 0 then (Inr [], [])
      else if 100 < length texts then (Inl BatchTooLarge, [])
      else
        (let request = embeddings_request this texts in
         (case fetch request of
            Rejected \<Rightarrow> Inl FetchRejected
          | Responded response \<Rightarrow>
              if \<not> ok response
              then Inl (EmbeddingsApiError (status response) (statusText response)
                         (bodyText response))
              else
                (case bodyJson response of
                   None \<Rightarrow> Inl TypeError
                 | Some json \<Rightarrow>
                     (let embeddings = map embedding (sort_key index (data json)) in
                      case usage json of
                        None \<Rightarrow> Inl TypeError
                      | Some _ \<Rightarrow> Inr embeddings)),
          [request])))"

text \<open>
  \<open>generateSingleEmbedding(text)\<close> returns \<open>embeddings[0]\<close>, which is \<open>undefined\<close> when
  the service answered with no vector.
\<close>

definition generateSingleEmbedding ::
  "(Request \<Rightarrow> FetchResult) \<Rightarrow> EmbeddingClient \<Rightarrow> jsstring
     \<Rightarrow> (error + real list option) \<times> Request list" where
  "generateSingleEmbedding fetch this text =
     (case generateEmbeddings fetch this [text] of
        (Inl e, requests) \<Rightarrow> (Inl e, requests)
      | (Inr embeddings, requests) \<Rightarrow>
          (Inr (case embeddings of [] \<Rightarrow> None | e # _ \<Rightarrow> Some e), requests))"

section \<open>The embedding repository\<close>

text \<open>
  The table \<open>tool_embeddings\<close> is a list of rows; of its columns the surrogate key and
  the two timestamps are left out. The queries on it are assumed to be answered (a
  failing connection is not modelled for them).
\<close>

record Row =
  tool_uuid :: jsstring
  namespace_uuid :: jsstring
  model_name :: jsstring
  embedding_dimensions :: nat
  embedding :: "real list"
  embedding_text :: jsstring

record HasToolUuid =
  toolUuid :: jsstring

record Requested = HasToolUuid +
  embeddingText :: jsstring

text \<open>
  \<open>new Map(pairs)\<close> sets the pairs in order, so a later pair with the same key wins.
\<close>

definition new_Map :: "('k \<times> 'v) list \<Rightarrow> ('k \<rightharpoonup> 'v)" where
  "new_Map pairs = map_of (rev pairs)"

text \<open>
  \<open>getToolsNeedingEmbeddings(tools, namespaceUuid, modelName)\<close> on the table \<open>rows\<close>.
  \<open>!storedText\<close> holds for \<open>undefined\<close> (no entry in the map) and for the empty string.
\<close>

definition getToolsNeedingEmbeddings ::
  "Row list \<Rightarrow> Requested list \<Rightarrow> jsstring \<Rightarrow> jsstring \<Rightarrow> jsstring list" where
  "getToolsNeedingEmbeddings rows tools namespaceUuid modelName =
     (if length tools = 0 then []
      else
        (let toolUuids = map toolUuid tools;
             existing =
               map (\<lambda>r. (Row.tool_uuid r, Row.embedding_text r))
                 (filter (\<lambda>r. namespace_uuid r = namespaceUuid \<and> model_name r = modelName
                               \<and> Row.tool_uuid r \<in> set toolUuids) rows);
             existingMap = new_Map existing;
             needsRegeneration =
               filter (\<lambda>tool.
                    (let storedText = existingMap (toolUuid tool) in
                     if \<not> truthy storedText then True
                     else if storedText \<noteq> Some (embeddingText tool) then True
                     else False)) tools
         in map toolUuid needsRegeneration))"

record EmbeddingInput = Requested +
  namespaceUuid :: jsstring
  modelName :: jsstring
  embeddingDimensions :: nat
  embedding :: "real list"

record SimilarTool =
  tool_uuid :: jsstring
  embedding_text :: jsstring
  similarity :: real

text \<open>
  \<open>upsertEmbeddings(embeddings)\<close>: each input is inserted, or replaces the payload of
  the row with the same \<open>(tool_uuid, namespace_uuid, model_name)\<close>.
\<close>

definition same_key :: "EmbeddingInput \<Rightarrow> Row \<Rightarrow> bool" where
  "same_key e r \<longleftrightarrow>
     Row.tool_uuid r = toolUuid e \<and> namespace_uuid r = namespaceUuid e \<and> model_name r = modelName e"

definition row_of :: "EmbeddingInput \<Rightarrow> Row" where
  "row_of e =
     \<lparr>Row.tool_uuid = toolUuid e, namespace_uuid = namespaceUuid e, model_name = modelName e,
      embedding_dimensions = embeddingDimensions e,
      Row.embedding = EmbeddingInput.embedding e,
      Row.embedding_text = embeddingText e\<rparr>"

definition upsert :: "EmbeddingInput \<Rightarrow> Row list \<Rightarrow> Row list" where
  "upsert e rows =
     (if \<exists>r \<in> set rows. same_key e r
      then map (\<lambda>r. if same_key e r then row_of e else r) rows
      else rows @ [row_of e])"

definition upsertEmbeddings :: "Row list \<Rightarrow> EmbeddingInput list \<Rightarrow> Row list" where
  "upsertEmbeddings rows embeddings = fold upsert embeddings rows"

section \<open>The smart proxy\<close>

subsection \<open>Tools and the in-memory state\<close>

text \<open>
  A tool descriptor of the tool protocol. Of the input schema only what the proxy
  reads is kept: its \<open>properties\<close>, if any, each with its name and its \<open>description\<close>, if
  it has one. A downstream connection is a value of the type parameter \<open>'c\<close>.
\<close>

record InputSchema =
  properties :: "(jsstring \<times> jsstring option) list option"

record Tool =
  name :: jsstring
  description :: "jsstring option"
  inputSchema :: InputSchema

text \<open>The value stored in \<open>this.tools\<close>, and the element of the batch that \<open>indexTools\<close> takes.\<close>

record 'c ToolData = HasToolUuid +
  tool :: Tool
  client :: 'c

record 'c BoundTool = "'c ToolData" +
  serverName :: jsstring
  originalName :: jsstring

text \<open>
  A document of the lexical index (\<open>doc_id\<close> is its field \<open>id\<close>), and a hit of a search:
  the stored fields of a document and its score.
\<close>

record IndexedTool = HasToolUuid +
  doc_id :: jsstring
  toolId :: jsstring
  "method" :: jsstring
  description :: "jsstring option"
  parameterDescriptions :: jsstring

record SearchResult = scored +
  hit :: IndexedTool

record ToolWithText = Requested +
  tool :: IndexedTool

text \<open>
  The object that \<open>discover\<close> builds for a tool. On the vector path \<open>toolId\<close> and
  \<open>method\<close> come from destructuring an array and may be \<open>undefined\<close>.
\<close>

record Descriptor = scored +
  toolId :: "jsstring option"
  "method" :: "jsstring option"
  description :: "jsstring option"
  inputSchema :: InputSchema

text \<open>
  A JavaScript object as the list of its properties, and what \<open>JSON.stringify\<close> encodes
  of an array of objects: a property whose value is \<open>undefined\<close> is left out. The text
  that \<open>discover\<close> returns is modelled by the array it encodes.
\<close>

datatype field = FUndefined | FString jsstring | FNumber real | FSchema InputSchema

type_synonym jsobject = "(jsstring \<times> field) list"

definition of_string :: "jsstring option \<Rightarrow> field" where
  "of_string s = (case s of None \<Rightarrow> FUndefined | Some t \<Rightarrow> FString t)"

definition JSON_stringify :: "jsobject list \<Rightarrow> jsobject list" where
  "JSON_stringify array = map (filter (\<lambda>(key, v). v \<noteq> FUndefined)) array"

definition object_of :: "Descriptor \<Rightarrow> jsobject" where
  "object_of r =
     [(str ''toolId'', of_string (Descriptor.toolId r)),
      (str ''method'', of_string (Descriptor.method r)),
      (str ''description'', of_string (Descriptor.description r)),
      (str ''inputSchema'', FSchema (Descriptor.inputSchema r)),
      (str ''score'', FNumber (score r))]"

text \<open>\<open>({ score, ...rest }) => rest\<close>\<close>

definition rest_without_score :: "jsobject \<Rightarrow> jsobject" where
  "rest_without_score object = filter (\<lambda>(key, v). key \<noteq> str ''score'') object"

text \<open>
  The fields of \<open>SmartMCPProxy\<close>. \<open>tools\<close> is a \<open>Map\<close>: its entries in insertion order,
  each key once. \<open>toolsIndex\<close> is the lexical index, by the documents added to it.
\<close>

record 'c SmartMCPProxy =
  toolsIndex :: "IndexedTool list"
  tools :: "(jsstring \<times> 'c ToolData) list"
  searchMode :: SearchMode
  embeddingClient :: "EmbeddingClient option"
  namespaceUuid :: "jsstring option"
  modelName :: jsstring
  fuzzy :: real
  descriptionBoost :: real
  discoverDescription :: jsstring
  discoverLimit :: int
  dynamicLimitConfig :: DynamicLimitConfig
  truncationConfig :: EmbeddingTruncationConfig

text \<open>
  What lies outside the proxy. The services answer as functions: the embeddings
  endpoint to a request; the vector store to the similarity query of
  \<open>findSimilarTools(namespaceUuid, modelName, queryEmbedding, limit)\<close>, with an error
  when the query fails; the lexical index library to
  \<open>search(query, {fuzzy, prefix: true, boost: {description}, combineWith: 'OR'})\<close> on the
  documents indexed. The world holds the table of embeddings and the requests sent to
  the embeddings endpoint so far.
\<close>

record Services =
  fetch :: "Request \<Rightarrow> FetchResult"
  findSimilarTools :: "jsstring \<Rightarrow> jsstring \<Rightarrow> real list option \<Rightarrow> int \<Rightarrow> error + SimilarTool list"
  search :: "IndexedTool list \<Rightarrow> jsstring \<Rightarrow> real \<Rightarrow> real \<Rightarrow> SearchResult list"

record World =
  table :: "Row list"
  sent :: "Request list"

subsection \<open>indexTools\<close>

definition extractParameterDescriptions :: "InputSchema option \<Rightarrow> jsstring" where
  "extractParameterDescriptions parameters =
     (case parameters of
        None \<Rightarrow> []
      | Some schema \<Rightarrow>
          (let descriptions =
             (case properties schema of
                None \<Rightarrow> []
              | Some entries \<Rightarrow>
                  concat (map (\<lambda>(paramName, paramInfo_description).
                      case paramInfo_description of
                        None \<Rightarrow> []
                      | Some d \<Rightarrow> if d = [] then [] else [d]) entries))
           in join [0x000A] descriptions))"

text \<open>
  The body of the \<open>forEach\<close> of \<open>indexTools\<close>, on the pair of \<open>this.tools\<close> and
  \<open>indexableTools\<close>. \<open>Map.set\<close> replaces the value of a key that is present, in its place,
  and appends a new key.
\<close>

definition index_one ::
  "'c BoundTool \<Rightarrow> (jsstring \<times> 'c ToolData) list \<times> IndexedTool list
     \<Rightarrow> (jsstring \<times> 'c ToolData) list \<times> IndexedTool list" where
  "index_one t acc =
     (let uniqueId = serverName t @ str ''::'' @ originalName t;
          parameterDescriptions = extractParameterDescriptions (Some (Tool.inputSchema (ToolData.tool t)))
      in (AList.update uniqueId
            \<lparr>toolUuid = toolUuid t, ToolData.tool = ToolData.tool t, client = client t\<rparr> (fst acc),
          snd acc @
            [\<lparr>toolUuid = toolUuid t, doc_id = uniqueId, IndexedTool.toolId = serverName t,
              IndexedTool.method = originalName t,
              IndexedTool.description = Tool.description (ToolData.tool t),
              parameterDescriptions = parameterDescriptions\<rparr>]))"

definition index_all ::
  "'c BoundTool list \<Rightarrow> (jsstring \<times> 'c ToolData) list \<times> IndexedTool list" where
  "index_all batch = fold index_one batch ([], [])"

subsection \<open>generateAndStoreEmbeddings\<close>

text \<open>The canonical embedding text of an indexed tool, given its truncated description.\<close>

definition embeddingText_of :: "IndexedTool \<Rightarrow> jsstring \<Rightarrow> jsstring" where
  "embeddingText_of t truncatedDesc =
     IndexedTool.method t @ str '': '' @ or_else (Some truncatedDesc) (str ''No description'')
       @ [0x000A]
       @ str ''Parameters: '' @ or_else (Some (parameterDescriptions t)) (str ''none'')"

text \<open>
  \<open>tools.map(tool => ...)\<close> at the head of \<open>generateAndStoreEmbeddings\<close>: \<open>None\<close> where a
  call of \<open>truncateForEmbedding\<close> does not return.
\<close>

fun toolsWithTexts_of ::
  "EmbeddingTruncationConfig \<Rightarrow> IndexedTool list \<Rightarrow> ToolWithText list option" where
  "toolsWithTexts_of config [] = Some []"
| "toolsWithTexts_of config (t # ts) =
     (case truncateForEmbedding config (IndexedTool.description t) of
        None \<Rightarrow> None
      | Some truncatedDesc \<Rightarrow>
          (case toolsWithTexts_of config ts of
             None \<Rightarrow> None
           | Some rest \<Rightarrow>
               Some (\<lparr>toolUuid = toolUuid t,
                       embeddingText = embeddingText_of t truncatedDesc,
                       ToolWithText.tool = t\<rparr> # rest)))"

text \<open>
  The batching loop, \<open>for (let i = 0; i < texts.length; i += BATCH_SIZE)\<close> with
  \<open>BATCH_SIZE = 50\<close>; an error of a batch leaves the loop. The pause between batches
  is not modelled.
\<close>

function embed_batches ::
  "Services \<Rightarrow> EmbeddingClient \<Rightarrow> jsstring list \<Rightarrow> nat \<Rightarrow> real list list
     \<Rightarrow> (error + real list list) \<times> Request list" where
  "embed_batches services embeddingClient' texts i allEmbeddings =
     (if i < length texts then
        (let batch = take 50 (drop i texts) in
         case generateEmbeddings (fetch services) embeddingClient' batch of
           (Inl e, requests) \<Rightarrow> (Inl e, requests)
         | (Inr batchEmbeddings, requests) \<Rightarrow>
             (case embed_batches services embeddingClient' texts (i + 50)
                     (allEmbeddings @ batchEmbeddings) of
                (r, later) \<Rightarrow> (r, requests @ later)))
      else (Inr allEmbeddings, []))"
  by pat_completeness auto
termination
  by (relation "measure (\<lambda>(services, embeddingClient', texts, i, allEmbeddings). length texts - i)")
     auto

declare embed_batches.simps [simp del]

text \<open>
  \<open>toolsToEmbed.map((toolWithText, index) => ...)\<close>, with \<open>i\<close> for \<open>index\<close>: reading
  \<open>allEmbeddings[index].length\<close> throws a \<open>TypeError\<close> when the service gave fewer vectors
  than texts.
\<close>

fun embeddingsToSave_of ::
  "jsstring \<Rightarrow> jsstring \<Rightarrow> real list list \<Rightarrow> ToolWithText list \<Rightarrow> nat
     \<Rightarrow> error + EmbeddingInput list" where
  "embeddingsToSave_of ns mn allEmbeddings [] i = Inr []"
| "embeddingsToSave_of ns mn allEmbeddings (toolWithText # rest) i =
     (if i < length allEmbeddings then
        (case embeddingsToSave_of ns mn allEmbeddings rest (i + 1) of
           Inl e \<Rightarrow> Inl e
         | Inr saved \<Rightarrow>
             Inr (\<lparr>toolUuid = toolUuid toolWithText,
                   embeddingText = embeddingText toolWithText,
                   EmbeddingInput.namespaceUuid = ns,
                   EmbeddingInput.modelName = mn,
                   embeddingDimensions = length (allEmbeddings ! i),
                   EmbeddingInput.embedding = allEmbeddings ! i\<rparr> # saved))
      else Inl TypeError)"

text \<open>
  \<open>generateAndStoreEmbeddings(tools)\<close>, called with the embedding client and the
  namespace that the guard of \<open>indexTools\<close> has found set. The \<open>catch\<close> turns every
  error into the fallback \<open>this.searchMode = SearchMode.KEYWORD\<close>. The result is \<open>None\<close>
  where the call does not return.
\<close>

definition generateAndStoreEmbeddings ::
  "Services \<Rightarrow> EmbeddingClient \<Rightarrow> jsstring \<Rightarrow> World \<times> 'c SmartMCPProxy \<Rightarrow> IndexedTool list
     \<Rightarrow> (World \<times> 'c SmartMCPProxy) option" where
  "generateAndStoreEmbeddings services embeddingClient' namespaceUuid' state indexed =
     (case state of (world, this) \<Rightarrow>
      case toolsWithTexts_of (truncationConfig this) indexed of
        None \<Rightarrow> None
      | Some toolsWithTexts \<Rightarrow>
          Some
            (let toolsNeedingEmbeddings =
                   getToolsNeedingEmbeddings (table world) (map Requested.truncate toolsWithTexts)
                     namespaceUuid' (SmartMCPProxy.modelName this)
             in
             if length toolsNeedingEmbeddings = 0 then (world, this)
             else
               (let toolsToEmbed =
                      filter (\<lambda>t. toolUuid t \<in> set toolsNeedingEmbeddings) toolsWithTexts;
                    texts = map embeddingText toolsToEmbed
                in
                case embed_batches services embeddingClient' texts 0 [] of
                  (Inl e, requests) \<Rightarrow>
                    (world\<lparr>sent := sent world @ requests\<rparr>, this\<lparr>searchMode := KEYWORD\<rparr>)
                | (Inr allEmbeddings, requests) \<Rightarrow>
                    (case embeddingsToSave_of namespaceUuid' (SmartMCPProxy.modelName this)
                            allEmbeddings toolsToEmbed 0 of
                       Inl e \<Rightarrow>
                         (world\<lparr>sent := sent world @ requests\<rparr>, this\<lparr>searchMode := KEYWORD\<rparr>)
                     | Inr embeddingsToSave \<Rightarrow>
                         (world\<lparr>sent := sent world @ requests,
                                table := upsertEmbeddings (table world) embeddingsToSave\<rparr>,
                          this)))))"

text \<open>
  \<open>indexTools(tools)\<close>: the table and the index are cleared and filled from the batch;
  in embeddings mode, with a client and a namespace, the embeddings are reconciled.
  The index library refuses a batch in which two documents have the same id; the model
  keeps both documents, and no theorem below rests on such a batch.
\<close>

definition indexTools ::
  "Services \<Rightarrow> World \<times> 'c SmartMCPProxy \<Rightarrow> 'c BoundTool list
     \<Rightarrow> (World \<times> 'c SmartMCPProxy) option" where
  "indexTools services state batch =
     (case state of (world, this) \<Rightarrow>
      (let indexed = index_all batch;
           this' = this\<lparr>tools := fst indexed, toolsIndex := snd indexed\<rparr>
       in
       case (embeddingClient this', SmartMCPProxy.namespaceUuid this') of
         (Some embeddingClient', Some namespaceUuid') \<Rightarrow>
           if searchMode this' = EMBEDDINGS \<and> namespaceUuid' \<noteq> []
           then generateAndStoreEmbeddings services embeddingClient' namespaceUuid'
                  (world, this') (snd indexed)
           else Some (world, this')
       | _ \<Rightarrow> Some (world, this')))"

subsection \<open>discover\<close>

text \<open>\<open>array[i]\<close>, which is \<open>undefined\<close> beyond the end.\<close>

definition element_at :: "'a list \<Rightarrow> nat \<Rightarrow> 'a option" where
  "element_at xs i = (if i < length xs then Some (xs ! i) else None)"

text \<open>
  The function mapped over \<open>similarTools\<close> in \<open>discoverWithEmbeddings\<close>: the first entry
  of \<open>this.tools\<close> with the \<open>tool_uuid\<close>, its key split on \<open>::\<close>, and \<open>null\<close> (here \<open>None\<close>)
  when there is no such entry.
\<close>

definition mapSimilar :: "'c SmartMCPProxy \<Rightarrow> SimilarTool \<Rightarrow> Descriptor option" where
  "mapSimilar this similar =
     (case find (\<lambda>(uniqueId, data). toolUuid data = SimilarTool.tool_uuid similar) (tools this) of
        None \<Rightarrow> None
      | Some (uniqueId, toolData) \<Rightarrow>
          (let parts = split uniqueId (str ''::'') in
           Some \<lparr>score = similarity similar,
                 Descriptor.toolId = element_at parts 0,
                 Descriptor.method = element_at parts 1,
                 Descriptor.description = Tool.description (ToolData.tool toolData),
                 Descriptor.inputSchema = Tool.inputSchema (ToolData.tool toolData)\<rparr>))"

text \<open>
  \<open>discoverWithEmbeddings(query)\<close>, with the client and the namespace that the guard of
  \<open>discover\<close> has found set. The inner \<open>catch\<close> rethrows. The array of \<open>result\<close> is encoded
  as it is.
\<close>

definition discoverWithEmbeddings ::
  "Services \<Rightarrow> EmbeddingClient \<Rightarrow> jsstring \<Rightarrow> 'c SmartMCPProxy \<Rightarrow> jsstring
     \<Rightarrow> (error + jsobject list) \<times> Request list" where
  "discoverWithEmbeddings services embeddingClient' namespaceUuid' this query =
     (case generateSingleEmbedding (fetch services) embeddingClient' query of
        (Inl e, requests) \<Rightarrow> (Inl e, requests)
      | (Inr queryEmbedding, requests) \<Rightarrow>
          (let candidateLimit = maxResults (dynamicLimitConfig this) * 2 in
           case findSimilarTools services namespaceUuid' (SmartMCPProxy.modelName this)
                  queryEmbedding candidateLimit of
             Inl e \<Rightarrow> (Inl e, requests)
           | Inr similarTools \<Rightarrow>
               (let mappedResults = List.map_filter (mapSimilar this) similarTools;
                    result = applyDynamicLimit (dynamicLimitConfig this) mappedResults
                in (Inr (JSON_stringify (map object_of result)), requests))))"

text \<open>
  \<open>result.score / maxScore\<close>. The scores of the library are positive; a quotient that
  is not a finite number (a top score of zero, an overflow) is outside the model.
\<close>

definition normalized :: "real \<Rightarrow> real \<Rightarrow> real" where
  "normalized a maxScore =
     (case js_div (Finite a) maxScore of Finite q \<Rightarrow> q | _ \<Rightarrow> a / maxScore)"

text \<open>The function mapped over \<open>searchResults\<close> in \<open>discoverWithKeywords\<close>.\<close>

definition mapHit ::
  "'c SmartMCPProxy \<Rightarrow> real \<Rightarrow> SearchResult \<Rightarrow> Descriptor option" where
  "mapHit this maxScore result =
     (let uniqueId = doc_id (hit result);
          toolData = map_of (tools this) uniqueId
      in case toolData of
           None \<Rightarrow> None
         | Some toolData \<Rightarrow>
             Some \<lparr>score = normalized (score result) maxScore,
                   Descriptor.toolId = Some (IndexedTool.toolId (hit result)),
                   Descriptor.method = Some (IndexedTool.method (hit result)),
                   Descriptor.description = IndexedTool.description (hit result),
                   Descriptor.inputSchema = Tool.inputSchema (ToolData.tool toolData)\<rparr>)"

definition discoverWithKeywords ::
  "Services \<Rightarrow> 'c SmartMCPProxy \<Rightarrow> jsstring \<Rightarrow> jsobject list" where
  "discoverWithKeywords services this combinedQuery =
     (let searchResults =
            search services (toolsIndex this) combinedQuery (fuzzy this) (descriptionBoost this);
          maxScore = (if 0 < length searchResults then score (searchResults ! 0) else 1);
          resultsWithNormalizedScores = List.map_filter (mapHit this maxScore) searchResults;
          filteredResults = applyDynamicLimit (dynamicLimitConfig this) resultsWithNormalizedScores;
          result = map (\<lambda>r. rest_without_score (object_of r)) filteredResults
      in JSON_stringify result)"

text \<open>
  \<open>discover({ queries })\<close>. It assigns no field of the proxy; the state it returns
  differs from the one it takes by the requests sent. An error of the vector path is
  caught and the keyword search answers.
\<close>

definition discover ::
  "Services \<Rightarrow> World \<times> 'c SmartMCPProxy \<Rightarrow> jsstring list
     \<Rightarrow> jsobject list \<times> (World \<times> 'c SmartMCPProxy)" where
  "discover services state queries =
     (case state of (world, this) \<Rightarrow>
      if length (toolsIndex this) = 0 then ([], (world, this))
      else
        (let combinedQuery = join (str '' '') queries in
         case (embeddingClient this, SmartMCPProxy.namespaceUuid this) of
           (Some embeddingClient', Some namespaceUuid') \<Rightarrow>
             if searchMode this = EMBEDDINGS \<and> namespaceUuid' \<noteq> [] then
               (case discoverWithEmbeddings services embeddingClient' namespaceUuid' this
                       combinedQuery of
                  (Inr text, requests) \<Rightarrow> (text, (world\<lparr>sent := sent world @ requests\<rparr>, this))
                | (Inl e, requests) \<Rightarrow>
                    (discoverWithKeywords services this combinedQuery,
                     (world\<lparr>sent := sent world @ requests\<rparr>, this)))
             else (discoverWithKeywords services this combinedQuery, (world, this))
         | _ \<Rightarrow> (discoverWithKeywords services this combinedQuery, (world, this))))"

subsection \<open>execute\<close>

text \<open>
  \<open>execute({ toolId, method, args })\<close>. \<open>callTool\<close> is the downstream connection's
  operation, with \<open>name\<close> and \<open>arguments\<close>; what it gives, a result or a rejection, is
  returned as it is.
\<close>

definition execute ::
  "('c \<Rightarrow> jsstring \<Rightarrow> 'a \<Rightarrow> 'o) \<Rightarrow> 'c SmartMCPProxy \<Rightarrow> jsstring \<Rightarrow> jsstring \<Rightarrow> 'a
     \<Rightarrow> (error + 'o) \<times> 'c SmartMCPProxy" where
  "execute callTool this toolId' method' args =
     (let uniqueId = toolId' @ str ''::'' @ method';
          toolData = map_of (tools this) uniqueId
      in case toolData of
           None \<Rightarrow>
             (Inl (ToolNotFound
                (str ''Tool '' @ method' @ str '' on server '' @ toolId'
                   @ str '' not found. Use '' @ [0x0027] @ str ''discover'' @ [0x0027]
                   @ str '' to find available tools.'')),
              this)
         | Some toolData \<Rightarrow> (Inr (callTool (client toolData) method' args), this))"

subsection \<open>The constructor\<close>

text \<open>
  \<open>new SmartMCPProxy({...})\<close>, with the options as arguments in the order of the source
  (an option left out is passed as its default, or as \<open>None\<close> where the default is
  \<open>null\<close>). Embeddings mode without an API key or a namespace falls back to keyword
  mode.
\<close>

definition DISCOVER_DESCRIPTION :: jsstring where
  "DISCOVER_DESCRIPTION =
     str ''Discover enables you the possibility to find other tools. ''
     @ str ''You will required to send a context that can be composed on multiple sentences as short as possible with the synthesis of the requirements you need to look for a tool. ''
     @ str ''If tools are found they will be returned as json array indicating their name, description and parameters. ''
     @ str ''To use the returned tools you will need to call the execute method indicating the toolID, method and the parameters to be used.''"

definition DEFAULT_DISCOVER_LIMIT :: int where
  "DEFAULT_DISCOVER_LIMIT = 5"

definition new_SmartMCPProxy ::
  "real \<Rightarrow> real \<Rightarrow> jsstring option \<Rightarrow> int option \<Rightarrow> SearchMode \<Rightarrow> jsstring option
     \<Rightarrow> jsstring option \<Rightarrow> jsstring \<Rightarrow> jsstring option \<Rightarrow> DynamicLimitConfig option
     \<Rightarrow> EmbeddingTruncationConfig option \<Rightarrow> 'c SmartMCPProxy" where
  "new_SmartMCPProxy fuzzy' descriptionBoost' discoverDescription' discoverLimit' searchMode'
       apiKey' apiUrl embeddingModel namespaceUuid' dynamicLimitConfig' truncationConfig' =
     \<lparr>toolsIndex = [],
      tools = [],
      searchMode =
        (if searchMode' = EMBEDDINGS \<and> truthy apiKey' \<and> truthy namespaceUuid' then EMBEDDINGS
         else if searchMode' = EMBEDDINGS then KEYWORD
         else searchMode'),
      embeddingClient =
        (case apiKey' of
           None \<Rightarrow> None
         | Some key \<Rightarrow>
             if searchMode' = EMBEDDINGS \<and> truthy apiKey' \<and> truthy namespaceUuid'
             then Some \<lparr>apiKey = key, model = embeddingModel,
                         baseUrl = or_else apiUrl (str ''http://localhost:11434/v1'')\<rparr>
             else None),
      namespaceUuid = (if truthy namespaceUuid' then namespaceUuid' else None),
      modelName = embeddingModel,
      fuzzy = fuzzy',
      descriptionBoost = descriptionBoost',
      discoverDescription = or_else discoverDescription' DISCOVER_DESCRIPTION,
      discoverLimit =
        (case discoverLimit' of
           None \<Rightarrow> DEFAULT_DISCOVER_LIMIT
         | Some n \<Rightarrow> if n = 0 then DEFAULT_DISCOVER_LIMIT else n),
      dynamicLimitConfig =
        (case dynamicLimitConfig' of None \<Rightarrow> DEFAULT_DYNAMIC_CONFIG | Some c \<Rightarrow> c),
      truncationConfig =
        (case truncationConfig' of None \<Rightarrow> DEFAULT_TRUNCATION_CONFIG | Some c \<Rightarrow> c)\<rparr>"

section \<open>The rules of the specification\<close>

subsection \<open>The selection rule of the specification\<close>

text \<open>
  The rule as the specification words it: result 0 is accepted if and only if its score
  is at least \<open>minScore\<close>; before each later result \<open>i\<close> the walk stops when the number
  accepted equals \<open>maxResults\<close>, or \<open>score[i] < minScore\<close>, or the relative drop from
  \<open>score[i-1]\<close>, that is \<open>(score[i-1] - score[i]) / score[i-1]\<close> as JavaScript computes
  it, exceeds \<open>dropThreshold\<close>. \<open>spec_walk\<close> carries the previous score and
  the number accepted so far.
\<close>

fun spec_walk ::
  "DynamicLimitConfig \<Rightarrow> real \<Rightarrow> nat \<Rightarrow> 'a scored_scheme list \<Rightarrow> 'a scored_scheme list" where
  "spec_walk config prev accepted [] = []"
| "spec_walk config prev accepted (r # rs) =
     (if int accepted = maxResults config
         \<or> score r < minScore config
         \<or> js_gt (js_div (js_sub prev (score r)) prev) (dropThreshold config)
      then []
      else r # spec_walk config (score r) (Suc accepted) rs)"

fun spec_dynamic_limit ::
  "DynamicLimitConfig \<Rightarrow> 'a scored_scheme list \<Rightarrow> 'a scored_scheme list" where
  "spec_dynamic_limit config [] = []"
| "spec_dynamic_limit config (r # rs) =
     (if minScore config \<le> score r then r # spec_walk config (score r) 1 rs else [])"

subsection \<open>The loop of the selector from a position on\<close>

text \<open>
  The loop seen from position \<open>i \<ge> 1\<close>: what it appends to \<open>filtered\<close>, as a function of
  the previous score, the number accepted and the results still to visit.
\<close>

fun plateau ::
  "DynamicLimitConfig \<Rightarrow> real \<Rightarrow> nat \<Rightarrow> 'a scored_scheme list \<Rightarrow> 'a scored_scheme list" where
  "plateau config prev n [] = []"
| "plateau config prev n (r # rs) =
     (if maxResults config \<le> int n
         \<or> score r < minScore config
         \<or> js_gt (js_div (js_sub prev (score r)) prev) (dropThreshold config)
      then []
      else r # plateau config (score r) (Suc n) rs)"

subsection \<open>The staleness rule of the specification\<close>

text \<open>
  The table has at most one row for each \<open>(tool_uuid, namespace_uuid, model_name)\<close>: the
  constraint \<open>UNIQUE(tool_uuid, namespace_uuid, model_name)\<close> of its declaration, which is
  the conflict target of \<open>upsertEmbeddings\<close>.
\<close>

definition row_key :: "Row \<Rightarrow> jsstring \<times> jsstring \<times> jsstring" where
  "row_key r = (Row.tool_uuid r, namespace_uuid r, model_name r)"

definition unique_key :: "Row list \<Rightarrow> bool" where
  "unique_key rows \<longleftrightarrow> distinct (map row_key rows)"

text \<open>
  The rule as the specification words it: a requested tool is returned when it has no
  stored row for \<open>(tool_uuid, namespace_uuid, model_name)\<close>, or when the stored
  \<open>embedding_text\<close> differs from the requested one.
\<close>

definition stale :: "Row list \<Rightarrow> jsstring \<Rightarrow> jsstring \<Rightarrow> Requested \<Rightarrow> bool" where
  "stale rows ns mn t \<longleftrightarrow>
     (\<forall>r \<in> set rows. row_key r \<noteq> (toolUuid t, ns, mn))
     \<or> (\<exists>r \<in> set rows. row_key r = (toolUuid t, ns, mn)
           \<and> Row.embedding_text r \<noteq> embeddingText t)"

definition spec_tools_needing_embeddings ::
  "Row list \<Rightarrow> Requested list \<Rightarrow> jsstring \<Rightarrow> jsstring \<Rightarrow> jsstring list" where
  "spec_tools_needing_embeddings rows requests ns mn =
     map toolUuid (filter (stale rows ns mn) requests)"

text \<open>The requested texts agree with the stored ones: every tool has its row.\<close>

definition up_to_date :: "Row list \<Rightarrow> jsstring \<Rightarrow> jsstring \<Rightarrow> Requested list \<Rightarrow> bool" where
  "up_to_date rows ns mn requests \<longleftrightarrow>
     list_all (\<lambda>t. \<exists>r \<in> set rows. row_key r = (toolUuid t, ns, mn)
                     \<and> Row.embedding_text r = embeddingText t) requests"

subsection \<open>The truncation rule of the specification\<close>

text \<open>
  The successive occurrences of the delimiter, scanning from \<open>position\<close>: each one is
  searched for after the end of the one before. The empty delimiter has none.
\<close>

function delimiter_occurrences :: "jsstring \<Rightarrow> jsstring \<Rightarrow> nat \<Rightarrow> nat list" where
  "delimiter_occurrences d s position =
     (if d = [] then []
      else case indexOf s d position of
             None \<Rightarrow> []
           | Some k \<Rightarrow> k # delimiter_occurrences d s (k + length d))"
  by pat_completeness auto
termination
proof (relation "measure (\<lambda>(d, s, position). Suc (length s) - position)")
  show "wf (measure (\<lambda>(d, s, position). Suc (length s) - position))" by simp
next
  fix d s :: jsstring and position k :: nat
  assume d: "d \<noteq> []" and k: "indexOf s d position = Some k"
  from indexOf_SomeD[OF k] have "min position (length s) \<le> k" "k + length d \<le> length s"
    by auto
  moreover from d obtain n where "length d = Suc n"
    by (cases d) auto
  ultimately have "Suc (length s) - (k + length d) < Suc (length s) - position"
    by (cases "position \<le> length s") (simp_all add: min_def)
  then show "((d, s, k + length d), (d, s, position))
      \<in> measure (\<lambda>(d, s, position). Suc (length s) - position)"
    by simp
qed

declare delimiter_occurrences.simps [simp del]

text \<open>
  The rule as the specification words it: with truncation disabled the description is
  returned as it is; otherwise, of the occurrences from the configured one on, the first
  whose trimmed prefix has at least \<open>minLength\<close> code units gives the result, and the
  description is returned when there is none.
\<close>

definition fits :: "EmbeddingTruncationConfig \<Rightarrow> jsstring \<Rightarrow> nat \<Rightarrow> bool" where
  "fits config desc = (\<lambda>k. minLength config \<le> int (length (trim (take k desc))))"


section \<open>Notions used in the statements\<close>

text \<open>\<open>s.includes(searchString)\<close>: the string occurs in \<open>s\<close>.\<close>

definition js_includes :: "jsstring \<Rightarrow> jsstring \<Rightarrow> bool" where
  "js_includes s searchString \<longleftrightarrow> indexOf s searchString 0 \<noteq> None"

text \<open>
  The endpoint answers a request with the entries \<open>entries\<close>: a response with a status
  in 200 to 299 whose body is the expected JSON, with these \<open>data\<close> and with its \<open>usage\<close>.
  The endpoint fails on a request: \<open>fetch\<close> rejects, or the status is outside 200 to 299
  (status 500, say).
\<close>

definition answers :: "(Request \<Rightarrow> FetchResult) \<Rightarrow> Request \<Rightarrow> EmbeddingDatum list \<Rightarrow> bool" where
  "answers fetch' request entries \<longleftrightarrow>
     (case fetch' request of
        Rejected \<Rightarrow> False
      | Responded response \<Rightarrow>
          ok response \<and>
          (case bodyJson response of
             None \<Rightarrow> False
           | Some json \<Rightarrow> data json = entries \<and> usage json \<noteq> None))"

definition fails :: "(Request \<Rightarrow> FetchResult) \<Rightarrow> Request \<Rightarrow> bool" where
  "fails fetch' request \<longleftrightarrow>
     (case fetch' request of Rejected \<Rightarrow> True | Responded response \<Rightarrow> \<not> ok response)"

section \<open>Scenarios\<close>

text \<open>
  Concrete sessions on which the properties are evaluated. Downstream connections are
  numbers. One tool is bound, \<open>a::b\<close> of the server \<open>srv\<close>, with the description
  \<open>Alpha beta.\<close> and no parameters.
\<close>

definition demo_tool :: "nat BoundTool" where
  "demo_tool =
     \<lparr>toolUuid = str ''u1'',
      ToolData.tool = \<lparr>name = str ''srv__a::b'', Tool.description = Some (str ''Alpha beta.''),
                        Tool.inputSchema = \<lparr>properties = None\<rparr>\<rparr>,
      client = 7,
      serverName = str ''srv'',
      originalName = str ''a::b''\<rparr>"

text \<open>
  A proxy in keyword mode; but for the description of \<open>discover\<close> the options are the
  defaults of the constructor.
\<close>

definition keyword_proxy :: "nat SmartMCPProxy" where
  "keyword_proxy =
     new_SmartMCPProxy 0.2 2 (Some (str ''Find tools.'')) None KEYWORD None None
       (str ''BAAI/bge-m3'') None None None"

text \<open>A proxy in embeddings mode, with an API key and the namespace \<open>ns\<close>.\<close>

definition embeddings_proxy :: "nat SmartMCPProxy" where
  "embeddings_proxy =
     new_SmartMCPProxy 0.2 2 (Some (str ''Find tools.'')) None EMBEDDINGS (Some (str ''key'')) None
       (str ''BAAI/bge-m3'') (Some (str ''ns'')) None None"

text \<open>
  The lexical index library answers with every document, at score 1. The vector store
  answers with the tool \<open>u1\<close> at similarity 0.9. The embeddings endpoint is up
  (\<open>services_up\<close>: one vector per input text, in order) or answers with status 500
  (\<open>services_500\<close>).
\<close>

definition all_hits :: "IndexedTool list \<Rightarrow> jsstring \<Rightarrow> real \<Rightarrow> real \<Rightarrow> SearchResult list" where
  "all_hits documents query fuzzy' boost = map (\<lambda>d. \<lparr>score = 1, hit = d\<rparr>) documents"

definition similar_u1 ::
  "jsstring \<Rightarrow> jsstring \<Rightarrow> real list option \<Rightarrow> int \<Rightarrow> error + SimilarTool list" where
  "similar_u1 ns mn queryEmbedding limit =
     Inr [\<lparr>SimilarTool.tool_uuid = str ''u1'',
           SimilarTool.embedding_text = str ''a::b: Alpha beta.'' @ [0x000A] @ str ''Parameters: none'',
           similarity = 0.9\<rparr>]"

definition endpoint_up :: "Request \<Rightarrow> FetchResult" where
  "endpoint_up request =
     Responded
       \<lparr>status = 200, statusText = str ''OK'', bodyText = [],
        bodyJson = Some
          \<lparr>data = map (\<lambda>i. \<lparr>EmbeddingDatum.embedding = [1, 0], index = int i\<rparr>)
                    [0 ..< length (body_input request)],
           usage = Some 1\<rparr>\<rparr>"

definition endpoint_500 :: "Request \<Rightarrow> FetchResult" where
  "endpoint_500 request =
     Responded
       \<lparr>status = 500, statusText = str ''Internal Server Error'', bodyText = [],
        bodyJson = None\<rparr>"

definition services_up :: Services where
  "services_up = \<lparr>fetch = endpoint_up, findSimilarTools = similar_u1, search = all_hits\<rparr>"

definition services_500 :: Services where
  "services_500 = \<lparr>fetch = endpoint_500, findSimilarTools = similar_u1, search = all_hits\<rparr>"

definition empty_world :: World where
  "empty_world = \<lparr>table = [], sent = []\<rparr>"

text \<open>
  The states after \<open>indexTools\<close> of the one tool: the entry of the tool table, the
  document of the index, the canonical embedding text, the client of the constructor
  and the row that reconciliation stores.
\<close>

definition demo_entry :: "nat ToolData" where
  "demo_entry =
     \<lparr>toolUuid = str ''u1'',
      ToolData.tool = \<lparr>name = str ''srv__a::b'', Tool.description = Some (str ''Alpha beta.''),
                        Tool.inputSchema = \<lparr>properties = None\<rparr>\<rparr>,
      client = 7\<rparr>"

definition demo_document :: IndexedTool where
  "demo_document =
     \<lparr>toolUuid = str ''u1'', doc_id = str ''srv::a::b'',
      IndexedTool.toolId = str ''srv'', IndexedTool.method = str ''a::b'',
      IndexedTool.description = Some (str ''Alpha beta.''), parameterDescriptions = []\<rparr>"

definition demo_text :: jsstring where
  "demo_text = str ''a::b: Alpha beta.'' @ [0x000A] @ str ''Parameters: none''"

definition demo_client :: EmbeddingClient where
  "demo_client =
     \<lparr>apiKey = str ''key'', model = str ''BAAI/bge-m3'',
      baseUrl = str ''http://localhost:11434/v1''\<rparr>"

definition demo_row :: Row where
  "demo_row =
     \<lparr>Row.tool_uuid = str ''u1'', namespace_uuid = str ''ns'', model_name = str ''BAAI/bge-m3'',
      embedding_dimensions = 2, Row.embedding = [1, 0], Row.embedding_text = demo_text\<rparr>"

text \<open>Bound in embeddings mode with the endpoint up: the embedding is stored.\<close>

definition bound_embeddings :: "World \<times> nat SmartMCPProxy" where
  "bound_embeddings =
     (\<lparr>table = [demo_row], sent = [embeddings_request demo_client [demo_text]]\<rparr>,
      embeddings_proxy\<lparr>tools := [(str ''srv::a::b'', demo_entry)], toolsIndex := [demo_document]\<rparr>)"

text \<open>
  Bound in embeddings mode with the endpoint answering 500: nothing is stored and the
  session is in keyword mode.
\<close>

definition bound_downgraded :: "World \<times> nat SmartMCPProxy" where
  "bound_downgraded =
     (\<lparr>table = [], sent = [embeddings_request demo_client [demo_text]]\<rparr>,
      embeddings_proxy\<lparr>tools := [(str ''srv::a::b'', demo_entry)], toolsIndex := [demo_document],
        searchMode := KEYWORD\<rparr>)"

text \<open>Bound in keyword mode.\<close>

definition bound_keyword :: "World \<times> nat SmartMCPProxy" where
  "bound_keyword =
     (empty_world,
      keyword_proxy\<lparr>tools := [(str ''srv::a::b'', demo_entry)], toolsIndex := [demo_document]\<rparr>)"

text \<open>A downstream \<open>callTool\<close> that answers with what it was called with.\<close>

definition echo :: "nat \<Rightarrow> jsstring \<Rightarrow> unit \<Rightarrow> nat \<times> jsstring" where
  "echo connection name' arguments = (connection, name')"

text \<open>
  The answers of \<open>discover\<close> for the one tool: as the vector path encodes it, and as
  the keyword path does.
\<close>

definition vector_answer :: "jsobject list" where
  "vector_answer =
     [[(str ''toolId'', FString (str ''srv'')),
       (str ''method'', FString (str ''a'')),
       (str ''description'', FString (str ''Alpha beta.'')),
       (str ''inputSchema'', FSchema \<lparr>properties = None\<rparr>),
       (str ''score'', FNumber 0.9)]]"

definition keyword_answer :: "jsobject list" where
  "keyword_answer =
     [[(str ''toolId'', FString (str ''srv'')),
       (str ''method'', FString (str ''a::b'')),
       (str ''description'', FString (str ''Alpha beta.'')),
       (str ''inputSchema'', FSchema \<lparr>properties = None\<rparr>)]]"

text \<open>An endpoint that answers with one vector per text, the entries in reverse order.\<close>

definition endpoint_reversed :: "Request \<Rightarrow> FetchResult" where
  "endpoint_reversed request =
     Responded
       \<lparr>status = 200, statusText = str ''OK'', bodyText = [],
        bodyJson = Some
          \<lparr>data = rev (map (\<lambda>i. \<lparr>EmbeddingDatum.embedding = [1, real i], index = int i\<rparr>)
                    [0 ..< length (body_input request)]),
           usage = Some 1\<rparr>\<rparr>"

definition endpoint_ordered :: "Request \<Rightarrow> FetchResult" where
  "endpoint_ordered request =
     Responded
       \<lparr>status = 200, statusText = str ''OK'', bodyText = [],
        bodyJson = Some
          \<lparr>data = map (\<lambda>i. \<lparr>EmbeddingDatum.embedding = [1, real i], index = int i\<rparr>)
                    [0 ..< length (body_input request)],
           usage = Some 1\<rparr>\<rparr>"

text \<open>
  Rows of the table for the namespace \<open>ns\<close> and the model \<open>m\<close>, by tool and stored
  text, and requested pairs.
\<close>

definition stored :: "jsstring \<Rightarrow> jsstring \<Rightarrow> Row" where
  "stored uuid text' =
     \<lparr>Row.tool_uuid = uuid, namespace_uuid = str ''ns'', model_name = str ''m'',
      embedding_dimensions = 2, Row.embedding = [1, 0], Row.embedding_text = text'\<rparr>"

definition requested :: "jsstring \<Rightarrow> jsstring \<Rightarrow> Requested" where
  "requested uuid text' = \<lparr>toolUuid = uuid, embeddingText = text'\<rparr>"

text \<open>
  A second tool, \<open>commit\<close> of the server \<open>git\<close>, with one described parameter; and the
  first tool with its description changed.
\<close>

definition other_tool :: "nat BoundTool" where
  "other_tool =
     \<lparr>toolUuid = str ''u2'',
      ToolData.tool =
        \<lparr>name = str ''git__commit'', Tool.description = Some (str ''Create a git commit.''),
         Tool.inputSchema = \<lparr>properties = Some [(str ''message'', Some (str ''The message.''))]\<rparr>\<rparr>,
      client = 8,
      serverName = str ''git'',
      originalName = str ''commit''\<rparr>"

definition changed_tool :: "nat BoundTool" where
  "changed_tool =
     demo_tool\<lparr>ToolData.tool :=
       (ToolData.tool demo_tool)\<lparr>Tool.description := Some (str ''Gamma delta.'')\<rparr>\<rparr>"

section \<open>Properties of the arithmetic\<close>

lemma pow2_step: "pow2 (e + 1) = 2 * pow2 e"
proof (cases "0 \<le> e")
  case True
  then have "nat (e + 1) = Suc (nat e)"
    by arith
  with True show ?thesis
    by (simp add: pow2_def)
next
  case neg: False
  show ?thesis
  proof (cases "e = - 1")
    case True
    then show ?thesis
      by (simp add: pow2_def)
  next
    case False
    with neg have "nat (- e) = Suc (nat (- (e + 1)))" and "\<not> 0 \<le> e + 1"
      by arith+
    with neg show ?thesis
      by (simp add: pow2_def)
  qed
qed

lemma binade_bounds: "0 < x \<Longrightarrow> pow2 (binade x) \<le> x \<and> x < pow2 (binade x + 1)"
proof (induction x rule: binade.induct)
  case (1 x)
  show ?case
  proof (cases "2 \<le> x")
    case True
    with "1.prems"
    have IH: "pow2 (binade (x / 2)) \<le> x / 2 \<and> x / 2 < pow2 (binade (x / 2) + 1)"
      by (intro "1.IH"(1)) simp_all
    from True "1.prems" have "binade x = binade (x / 2) + 1"
      by (subst binade.simps) simp
    with IH pow2_step[of "binade (x / 2)"] pow2_step[of "binade (x / 2) + 1"]
    show ?thesis
      by simp
  next
    case big: False
    show ?thesis
    proof (cases "x < 1")
      case True
      with "1.prems" big
      have IH: "pow2 (binade (x * 2)) \<le> x * 2 \<and> x * 2 < pow2 (binade (x * 2) + 1)"
        by (intro "1.IH"(2)) simp_all
      from True big "1.prems" have "binade x = binade (x * 2) - 1"
        by (subst binade.simps) simp
      with IH pow2_step[of "binade (x * 2) - 1"] pow2_step[of "binade (x * 2)"]
      show ?thesis
        by simp
    next
      case False
      with big "1.prems" have "binade x = 0"
        by (subst binade.simps) simp
      with False big show ?thesis
        by (simp add: pow2_def)
    qed
  qed
qed

lemma round_half_even_nearest: "\<bar>of_int (round_half_even x) - x\<bar> \<le> 1 / 2"
  unfolding round_half_even_def Let_def by (simp; linarith)

text \<open>
  The values of some literals and operations, as every implementation of binary64
  gives them: \<open>0.1\<close> is \<open>3602879701896397 / 2 ^ 55\<close>; a tie goes to the even significand;
  \<open>1 - 0.7\<close> is above \<open>0.3\<close>, and \<open>0.25 / 0.75\<close> is the number that the literal
  \<open>0.3333333333333333\<close> denotes.
\<close>

lemma round64_values:
  "round64 0.1 = Finite (3602879701896397 / 2 ^ 55)"
  "round64 1 = Finite 1"
  "round64 (1 + 1 / 2 ^ 53) = Finite 1"
  "round64 (1 + 3 / 2 ^ 53) = Finite (1 + 1 / 2 ^ 51)"
  "double 0.3 = 5404319552844595 / 2 ^ 54"
  "js_div (js_sub 1 (double 0.7)) 1 = Finite (5404319552844596 / 2 ^ 54)"
  "js_div (js_sub 0.75 0.5) 0.75 = Finite (double 0.3333333333333333)"
  by code_simp+

section \<open>Properties of the dynamic-limit selector\<close>

lemma applyDynamicLimit_loop_plateau:
  "0 < i \<Longrightarrow> i \<le> length results \<Longrightarrow> length filtered = i \<Longrightarrow>
   applyDynamicLimit_loop config results i filtered =
     filtered @ plateau config (score (results ! (i - 1))) i (drop i results)"
proof (induction config results i filtered rule: applyDynamicLimit_loop.induct)
  case (1 config results i filtered)
  show ?case
  proof (cases "i < length results")
    case False
    with "1.prems" show ?thesis
      by (subst applyDynamicLimit_loop.simps) simp
  next
    case True
    then have split: "drop i results = results ! i # drop (Suc i) results"
      by (simp add: Cons_nth_drop_Suc)
    show ?thesis
    proof (cases "maxResults config \<le> int (length filtered)
        \<or> score (results ! i) < minScore config
        \<or> js_gt (js_div (js_sub (score (results ! (i - 1))) (score (results ! i)))
              (score (results ! (i - 1)))) (dropThreshold config)")
      case stop: True
      with True "1.prems" show ?thesis
        by (subst applyDynamicLimit_loop.simps) (auto simp: split Let_def)
    next
      case go: False
      from go True "1.prems"
      have "applyDynamicLimit_loop config results (i + 1) (filtered @ [results ! i]) =
          (filtered @ [results ! i]) @
            plateau config (score (results ! (i + 1 - 1))) (i + 1) (drop (i + 1) results)"
        by (intro "1.IH"(2)) auto
      with go True "1.prems" show ?thesis
        by (subst applyDynamicLimit_loop.simps) (simp add: split Let_def)
    qed
  qed
qed

lemma applyDynamicLimit_unfold:
  "applyDynamicLimit config results =
     (case results of
        [] \<Rightarrow> []
      | r # rs \<Rightarrow>
          if maxResults config \<le> 0 \<or> score r < minScore config then []
          else r # plateau config (score r) 1 rs)"
proof (cases results)
  case Nil
  then show ?thesis by (simp add: applyDynamicLimit_def)
next
  case (Cons r rs)
  show ?thesis
  proof (cases "maxResults config \<le> 0 \<or> score r < minScore config")
    case True
    then show ?thesis
      unfolding applyDynamicLimit_def Cons
      by (subst applyDynamicLimit_loop.simps) (auto simp: Let_def)
  next
    case False
    have "applyDynamicLimit_loop config (r # rs) 1 [r] =
        [r] @ plateau config (score ((r # rs) ! (1 - 1))) 1 (drop 1 (r # rs))"
      by (rule applyDynamicLimit_loop_plateau) simp_all
    with False show ?thesis
      unfolding applyDynamicLimit_def Cons
      by (subst applyDynamicLimit_loop.simps) (simp add: Let_def)
  qed
qed

lemma plateau_spec_walk:
  "int n \<le> maxResults config \<Longrightarrow> plateau config prev n rs = spec_walk config prev n rs"
  by (induction rs arbitrary: prev n) auto

lemma js_gt_mono: "js_gt v t' \<Longrightarrow> t \<le> t' \<Longrightarrow> js_gt v t"
  by (cases v) auto

lemma plateau_mono:
  "maxResults c \<le> maxResults c' \<Longrightarrow> minScore c' \<le> minScore c \<Longrightarrow>
   dropThreshold c \<le> dropThreshold c' \<Longrightarrow>
   length (plateau c prev n rs) \<le> length (plateau c' prev n rs)"
  by (induction rs arbitrary: prev n) (auto dest: js_gt_mono)

lemma applyDynamicLimit_mono:
  "maxResults c \<le> maxResults c' \<Longrightarrow> minScore c' \<le> minScore c \<Longrightarrow>
   dropThreshold c \<le> dropThreshold c' \<Longrightarrow>
   length (applyDynamicLimit c rs) \<le> length (applyDynamicLimit c' rs)"
  by (cases rs) (auto simp: applyDynamicLimit_unfold plateau_mono)

lemma plateau_take: "take (length (plateau config prev n rs)) rs = plateau config prev n rs"
  by (induction rs arbitrary: prev n) auto

lemma applyDynamicLimit_take:
  "take (length (applyDynamicLimit config rs)) rs = applyDynamicLimit config rs"
  by (cases rs) (auto simp: applyDynamicLimit_unfold plateau_take)

text \<open>
  The quotient of the stop test is the rounded one. With the default configuration the
  scores 1, 0.7 give one result: \<open>1 - 0.7\<close> is above the number \<open>0.3\<close>. With
  \<open>dropThreshold\<close> 0.3333333333333333 the scores 0.75, 0.5 give both results:
  \<open>0.25 / 0.75\<close> rounds to the threshold.
\<close>

lemma applyDynamicLimit_rounded_drop:
  "applyDynamicLimit DEFAULT_DYNAMIC_CONFIG [\<lparr>score = 1\<rparr>, \<lparr>score = double 0.7\<rparr>]
     = [\<lparr>score = 1\<rparr>]"
  "applyDynamicLimit
     \<lparr>maxResults = 10, dropThreshold = double 0.3333333333333333, minScore = double 0.3\<rparr>
     [\<lparr>score = 0.75\<rparr>, \<lparr>score = 0.5\<rparr>]
     = [\<lparr>score = 0.75\<rparr>, \<lparr>score = 0.5\<rparr>]"
  by code_simp+

text \<open>
  C4. With \<open>maxResults \<ge> 1\<close> the selector returns exactly the prefix that the rule of
  the specification builds (result 0 accepted iff its score is at least \<open>minScore\<close>; stop
  before \<open>i \<ge> 1\<close> when the accepted count equals \<open>maxResults\<close>, or \<open>score[i] < minScore\<close>,
  or the relative drop \<open>(score[i-1] - score[i]) / score[i-1]\<close>, computed in binary64,
  exceeds \<open>dropThreshold\<close>), on every score list and so on every descending one. The cap
  is tested before result 0 as well, so with \<open>maxResults \<le> 0\<close> nothing is returned. The
  output is always a prefix of the input. With the default configuration the scores
  0.95, 0.93, 0.90, 0.50, 0.48 give the first three results and the scores 0.20, 0.19
  give none.
\<close>

theorem applyDynamicLimit_prefix_rule:
  "(1 \<le> maxResults config \<longrightarrow>
      applyDynamicLimit config results = spec_dynamic_limit config results) \<and>
   (maxResults config \<le> 0 \<longrightarrow> applyDynamicLimit config results = []) \<and>
   take (length (applyDynamicLimit config results)) results = applyDynamicLimit config results \<and>
   applyDynamicLimit DEFAULT_DYNAMIC_CONFIG
     [\<lparr>score = double 0.95\<rparr>, \<lparr>score = double 0.93\<rparr>, \<lparr>score = double 0.90\<rparr>,
      \<lparr>score = double 0.50\<rparr>, \<lparr>score = double 0.48\<rparr>]
     = [\<lparr>score = double 0.95\<rparr>, \<lparr>score = double 0.93\<rparr>, \<lparr>score = double 0.90\<rparr>] \<and>
   applyDynamicLimit DEFAULT_DYNAMIC_CONFIG [\<lparr>score = double 0.20\<rparr>, \<lparr>score = double 0.19\<rparr>]
     = []"
proof (intro conjI impI)
  assume "1 \<le> maxResults config"
  then show "applyDynamicLimit config results = spec_dynamic_limit config results"
    by (cases results) (auto simp: applyDynamicLimit_unfold plateau_spec_walk)
next
  assume "maxResults config \<le> 0"
  then show "applyDynamicLimit config results = []"
    by (cases results) (auto simp: applyDynamicLimit_unfold)
next
  show "take (length (applyDynamicLimit config results)) results
      = applyDynamicLimit config results"
    by (rule applyDynamicLimit_take)
next
  show "applyDynamicLimit DEFAULT_DYNAMIC_CONFIG
     [\<lparr>score = double 0.95\<rparr>, \<lparr>score = double 0.93\<rparr>, \<lparr>score = double 0.90\<rparr>,
      \<lparr>score = double 0.50\<rparr>, \<lparr>score = double 0.48\<rparr>]
     = [\<lparr>score = double 0.95\<rparr>, \<lparr>score = double 0.93\<rparr>, \<lparr>score = double 0.90\<rparr>]"
    by code_simp
next
  show "applyDynamicLimit DEFAULT_DYNAMIC_CONFIG
      [\<lparr>score = double 0.20\<rparr>, \<lparr>score = double 0.19\<rparr>] = []"
    by code_simp
qed

theorem applyDynamicLimit_prefix_rule_witness:
  "(1::int) \<le> maxResults \<lparr>maxResults = 2, dropThreshold = double 0.30, minScore = double 0.3\<rparr> \<and>
   applyDynamicLimit \<lparr>maxResults = 2, dropThreshold = double 0.30, minScore = double 0.3\<rparr>
     [\<lparr>score = double 0.9\<rparr>, \<lparr>score = double 0.8\<rparr>, \<lparr>score = double 0.7\<rparr>]
     = spec_dynamic_limit \<lparr>maxResults = 2, dropThreshold = double 0.30, minScore = double 0.3\<rparr>
         [\<lparr>score = double 0.9\<rparr>, \<lparr>score = double 0.8\<rparr>, \<lparr>score = double 0.7\<rparr>] \<and>
   spec_dynamic_limit \<lparr>maxResults = 2, dropThreshold = double 0.30, minScore = double 0.3\<rparr>
     [\<lparr>score = double 0.9\<rparr>, \<lparr>score = double 0.8\<rparr>, \<lparr>score = double 0.7\<rparr>]
     = [\<lparr>score = double 0.9\<rparr>, \<lparr>score = double 0.8\<rparr>] \<and>
   maxResults \<lparr>maxResults = 0, dropThreshold = double 0.30, minScore = double 0.3\<rparr> \<le> 0 \<and>
   applyDynamicLimit \<lparr>maxResults = 0, dropThreshold = double 0.30, minScore = double 0.3\<rparr>
     [\<lparr>score = double 0.9\<rparr>, \<lparr>score = double 0.8\<rparr>, \<lparr>score = double 0.7\<rparr>] = []"
proof -
  have "spec_dynamic_limit \<lparr>maxResults = 2, dropThreshold = double 0.30, minScore = double 0.3\<rparr>
      [\<lparr>score = double 0.9\<rparr>, \<lparr>score = double 0.8\<rparr>, \<lparr>score = double 0.7\<rparr>]
      = [\<lparr>score = double 0.9\<rparr>, \<lparr>score = double 0.8\<rparr>]"
    by code_simp
  with applyDynamicLimit_prefix_rule
      [of "\<lparr>maxResults = 2, dropThreshold = double 0.30, minScore = double 0.3\<rparr>"
          "[\<lparr>score = double 0.9\<rparr>, \<lparr>score = double 0.8\<rparr>, \<lparr>score = double 0.7\<rparr>]"]
    applyDynamicLimit_prefix_rule
      [of "\<lparr>maxResults = 0, dropThreshold = double 0.30, minScore = double 0.3\<rparr>"
          "[\<lparr>score = double 0.9\<rparr>, \<lparr>score = double 0.8\<rparr>, \<lparr>score = double 0.7\<rparr>]"]
  show ?thesis
    by simp
qed

text \<open>
  C4, as stated, fails when the cap is zero: the rule of the specification accepts
  result 0 whenever its score is at least \<open>minScore\<close>, the code returns nothing.
\<close>

theorem applyDynamicLimit_zero_cap_counterexample:
  "applyDynamicLimit \<lparr>maxResults = 0, dropThreshold = double 0.30, minScore = double 0.3\<rparr>
     [\<lparr>score = double 0.9\<rparr>] = [] \<and>
   spec_dynamic_limit \<lparr>maxResults = 0, dropThreshold = double 0.30, minScore = double 0.3\<rparr>
     [\<lparr>score = double 0.9\<rparr>] = [\<lparr>score = double 0.9\<rparr>] \<and>
   applyDynamicLimit \<lparr>maxResults = 0, dropThreshold = double 0.30, minScore = double 0.3\<rparr>
     [\<lparr>score = double 0.9\<rparr>]
     \<noteq> spec_dynamic_limit \<lparr>maxResults = 0, dropThreshold = double 0.30, minScore = double 0.3\<rparr>
         [\<lparr>score = double 0.9\<rparr>]"
  by code_simp

text \<open>
  C6. Dynamic-limit monotonicity, for every score list and configuration: a larger
  \<open>maxResults\<close> never gives fewer results; a larger \<open>minScore\<close> or a smaller
  \<open>dropThreshold\<close> never gives more. The other parameters are held fixed.
\<close>

theorem applyDynamicLimit_monotone:
  "(m \<le> m' \<longrightarrow>
      length (applyDynamicLimit (config\<lparr>maxResults := m\<rparr>) results)
        \<le> length (applyDynamicLimit (config\<lparr>maxResults := m'\<rparr>) results)) \<and>
   (s \<le> s' \<longrightarrow>
      length (applyDynamicLimit (config\<lparr>minScore := s'\<rparr>) results)
        \<le> length (applyDynamicLimit (config\<lparr>minScore := s\<rparr>) results)) \<and>
   (d' \<le> d \<longrightarrow>
      length (applyDynamicLimit (config\<lparr>dropThreshold := d'\<rparr>) results)
        \<le> length (applyDynamicLimit (config\<lparr>dropThreshold := d\<rparr>) results))"
  by (intro conjI impI applyDynamicLimit_mono) simp_all

theorem applyDynamicLimit_monotone_witness:
  "(1::int) \<le> 3 \<and>
   length (applyDynamicLimit (DEFAULT_DYNAMIC_CONFIG\<lparr>maxResults := 1\<rparr>)
     [\<lparr>score = 0.95\<rparr>, \<lparr>score = 0.93\<rparr>, \<lparr>score = 0.50\<rparr>])
     \<le> length (applyDynamicLimit (DEFAULT_DYNAMIC_CONFIG\<lparr>maxResults := 3\<rparr>)
     [\<lparr>score = 0.95\<rparr>, \<lparr>score = 0.93\<rparr>, \<lparr>score = 0.50\<rparr>]) \<and>
   (0.3::real) \<le> 0.94 \<and>
   length (applyDynamicLimit (DEFAULT_DYNAMIC_CONFIG\<lparr>minScore := 0.94\<rparr>)
     [\<lparr>score = 0.95\<rparr>, \<lparr>score = 0.93\<rparr>, \<lparr>score = 0.50\<rparr>])
     \<le> length (applyDynamicLimit (DEFAULT_DYNAMIC_CONFIG\<lparr>minScore := 0.3\<rparr>)
     [\<lparr>score = 0.95\<rparr>, \<lparr>score = 0.93\<rparr>, \<lparr>score = 0.50\<rparr>]) \<and>
   (0.01::real) \<le> 0.5 \<and>
   length (applyDynamicLimit (DEFAULT_DYNAMIC_CONFIG\<lparr>dropThreshold := 0.01\<rparr>)
     [\<lparr>score = 0.95\<rparr>, \<lparr>score = 0.93\<rparr>, \<lparr>score = 0.50\<rparr>])
     \<le> length (applyDynamicLimit (DEFAULT_DYNAMIC_CONFIG\<lparr>dropThreshold := 0.5\<rparr>)
     [\<lparr>score = 0.95\<rparr>, \<lparr>score = 0.93\<rparr>, \<lparr>score = 0.50\<rparr>])"
  using applyDynamicLimit_monotone
    [of 1 3 DEFAULT_DYNAMIC_CONFIG "[\<lparr>score = 0.95\<rparr>, \<lparr>score = 0.93\<rparr>, \<lparr>score = 0.50\<rparr>]"
        "0.3" "0.94" "0.01" "0.5"]
  by simp

section \<open>Properties of the truncation engine\<close>

lemma indexOf_empty: "indexOf s [] pos = Some (min pos (length s))"
proof -
  have "[min pos (length s) ..< Suc (length s)]
      = min pos (length s) # [Suc (min pos (length s)) ..< Suc (length s)]"
    by (rule upt_conv_Cons) simp
  then show ?thesis
    by (simp add: indexOf_def del: upt_Suc)
qed

lemma truncate_scan_occurrences:
  "delimiter config \<noteq> [] \<Longrightarrow> dl = delimiter config \<Longrightarrow>
   truncate_scan config desc c position =
     Some (case filter (fits config desc)
                 (drop (nat (occurrence config - 1 - c))
                    (delimiter_occurrences dl desc position)) of
             [] \<Rightarrow> desc
           | k # _ \<Rightarrow> trim (take k desc))"
proof (induction dl desc position arbitrary: c rule: delimiter_occurrences.induct)
  case (1 d s position)
  show ?case
  proof (cases "indexOf s d position")
    case None
    with "1.prems" show ?thesis
      by (subst truncate_scan.simps, subst delimiter_occurrences.simps) simp
  next
    case (Some k)
    note IH = "1.IH"[OF _ Some "1.prems"(1) "1.prems"(2), of "c + 1"]
    show ?thesis
    proof (cases "occurrence config \<le> c + 1")
      case True
      then have z: "nat (occurrence config - 1 - c) = 0" "nat (occurrence config - 1 - (c + 1)) = 0"
        by simp_all
      from "1.prems" Some True IH show ?thesis
        by (subst truncate_scan.simps, subst delimiter_occurrences.simps)
           (simp add: z fits_def Let_def)
    next
      case False
      then have z: "nat (occurrence config - 1 - c) = Suc (nat (occurrence config - 1 - (c + 1)))"
        by simp
      from "1.prems" Some False IH show ?thesis
        by (subst truncate_scan.simps, subst delimiter_occurrences.simps)
           (simp add: z Let_def)
    qed
  qed
qed

lemma truncate_scan_empty_delimiter:
  assumes "truncate_scan config desc c position = Some y"
  shows "\<not> (delimiter config = [] \<and> position = 0 \<and> 1 \<le> minLength config)"
proof (rule truncate_scan.raw_induct
    [where P = "\<lambda>config desc c position y.
        \<not> (delimiter config = [] \<and> position = 0 \<and> 1 \<le> minLength config)", OF _ assms])
  fix f :: "EmbeddingTruncationConfig \<Rightarrow> jsstring \<Rightarrow> int \<Rightarrow> nat \<Rightarrow> jsstring option"
  fix config desc c position y
  assume IH: "\<And>config desc c position y. f config desc c position = Some y \<Longrightarrow>
      \<not> (delimiter config = [] \<and> position = 0 \<and> 1 \<le> minLength config)"
  assume step: "(case indexOf desc (delimiter config) position of
        None \<Rightarrow> Some desc
      | Some foundIndex \<Rightarrow>
          (let currentOccurrence' = c + 1;
               searchIndex' = foundIndex + length (delimiter config) in
           if occurrence config \<le> currentOccurrence' then
             (let truncated = trim (take foundIndex desc) in
              if minLength config \<le> int (length truncated) then Some truncated
              else f config desc currentOccurrence' searchIndex')
           else f config desc currentOccurrence' searchIndex')) = Some y"
  show "\<not> (delimiter config = [] \<and> position = 0 \<and> 1 \<le> minLength config)"
  proof
    assume a: "delimiter config = [] \<and> position = 0 \<and> 1 \<le> minLength config"
    with step have "f config desc (c + 1) 0 = Some y"
      by (auto simp: indexOf_empty trim_def Let_def split: if_splits)
    from IH[OF this] a show False by simp
  qed
qed







text \<open>
  C10. With a non-empty delimiter \<open>truncateForEmbedding\<close> returns, for every description
  and configuration: an occurrence found from a search index within the description
  ends after that index and within the description, so that each iteration advances
  the search index. With the empty delimiter the occurrence found from index 0 is at
  0 and the next search index is 0 again; then, when truncation is enabled, the
  occurrence and \<open>minLength\<close> are at least 1 and the description is not empty, the call
  does not return.
\<close>

theorem truncateForEmbedding_terminates:
  "(delimiter config \<noteq> [] \<longrightarrow> (\<exists>r. truncateForEmbedding config desc = Some r)) \<and>
   (delimiter config \<noteq> [] \<and> position \<le> length d
      \<and> indexOf d (delimiter config) position = Some k \<longrightarrow>
      position < k + length (delimiter config) \<and> k + length (delimiter config) \<le> length d) \<and>
   (delimiter config = [] \<longrightarrow> indexOf d (delimiter config) 0 = Some 0
      \<and> 0 + length (delimiter config) = 0) \<and>
   (enabled config \<and> delimiter config = [] \<and> 1 \<le> occurrence config \<and> 1 \<le> minLength config
      \<and> d \<noteq> [] \<longrightarrow> truncateForEmbedding config (Some d) = None)"
proof -
  have returns: "\<exists>r. truncateForEmbedding config desc = Some r"
    if ne: "delimiter config \<noteq> []"
    using truncate_scan_occurrences[OF ne refl]
    by (simp add: truncateForEmbedding_def split: option.split)
  have advances:
    "position < k + length (delimiter config) \<and> k + length (delimiter config) \<le> length d"
    if a: "delimiter config \<noteq> [] \<and> position \<le> length d
      \<and> indexOf d (delimiter config) position = Some k"
  proof -
    from a obtain n where "length (delimiter config) = Suc n"
      by (cases "delimiter config") auto
    with a indexOf_SomeD(1,2)[of d "delimiter config" position k] show ?thesis
      by (simp add: min_def)
  qed
  have stuck: "indexOf d (delimiter config) 0 = Some 0 \<and> 0 + length (delimiter config) = 0"
    if "delimiter config = []"
    using that by (simp add: indexOf_empty)
  have diverges: "truncateForEmbedding config (Some d) = None"
    if a: "enabled config \<and> delimiter config = [] \<and> 1 \<le> occurrence config
      \<and> 1 \<le> minLength config \<and> d \<noteq> []"
  proof -
    have "truncate_scan config d 0 0 = None"
    proof (cases "truncate_scan config d 0 0")
      case (Some y)
      from truncate_scan_empty_delimiter[OF this] a show ?thesis by simp
    qed simp
    with a show ?thesis
      by (simp add: truncateForEmbedding_def)
  qed
  from returns advances stuck diverges show ?thesis
    by blast
qed

text \<open>
  C10 on a description with two newlines and the default configuration, and on the
  empty delimiter.
\<close>

theorem truncateForEmbedding_terminates_witness:
  "delimiter \<lparr>delimiter = [10], occurrence = 1, minLength = 5, enabled = True\<rparr> \<noteq> [] \<and>
   (\<exists>r. truncateForEmbedding \<lparr>delimiter = [10], occurrence = 1, minLength = 5, enabled = True\<rparr>
          (Some (str ''ab'' @ [10, 10] @ str ''cd'')) = Some r) \<and>
   (0::nat) \<le> length (str ''ab'' @ [10, 10] @ str ''cd'') \<and>
   indexOf (str ''ab'' @ [10, 10] @ str ''cd'')
     (delimiter \<lparr>delimiter = [10], occurrence = 1, minLength = 5, enabled = True\<rparr>) 0 = Some 2 \<and>
   enabled \<lparr>delimiter = [], occurrence = 1, minLength = 5, enabled = True\<rparr> \<and>
   delimiter \<lparr>delimiter = [], occurrence = 1, minLength = 5, enabled = True\<rparr> = [] \<and>
   str ''abc'' \<noteq> [] \<and>
   truncateForEmbedding \<lparr>delimiter = [], occurrence = 1, minLength = 5, enabled = True\<rparr>
     (Some (str ''abc'')) = None"
  using truncateForEmbedding_terminates
    [of "\<lparr>delimiter = [10], occurrence = 1, minLength = 5, enabled = True\<rparr>"
        "Some (str ''ab'' @ [10, 10] @ str ''cd'')" 0 "str ''ab'' @ [10, 10] @ str ''cd''" 2]
    truncateForEmbedding_terminates
    [of "\<lparr>delimiter = [], occurrence = 1, minLength = 5, enabled = True\<rparr>"
        "Some (str ''abc'')" 0 "str ''abc''" 0]
  by (simp add: indexOf_def str_def)

section \<open>Evaluation of the scenarios\<close>

lemma bind_embeddings:
  "indexTools services_up (empty_world, embeddings_proxy) [demo_tool] = Some bound_embeddings"
  by code_simp

lemma bind_downgraded:
  "indexTools services_500 (empty_world, embeddings_proxy) [demo_tool] = Some bound_downgraded"
  by code_simp

lemma bind_keyword:
  "indexTools services_up (empty_world, keyword_proxy) [demo_tool] = Some bound_keyword"
  by code_simp

lemma discover_vector:
  "fst (discover services_up bound_embeddings [str ''alpha'']) = vector_answer"
  by code_simp

lemma discover_keyword:
  "fst (discover services_up bound_keyword [str ''alpha'']) = keyword_answer"
  by code_simp

lemma keywords_demo:
  "discoverWithKeywords services_500 (snd bound_embeddings) (str ''alpha'') = keyword_answer"
  by code_simp

lemma state_facts:
  "toolsIndex (snd bound_embeddings) = [demo_document]"
  "tools (snd bound_embeddings) = [(str ''srv::a::b'', demo_entry)]"
  "searchMode (snd bound_embeddings) = EMBEDDINGS"
  "embeddingClient (snd bound_embeddings) = Some demo_client"
  "SmartMCPProxy.namespaceUuid (snd bound_embeddings) = Some (str ''ns'')"
  "searchMode (snd bound_downgraded) = KEYWORD"
  "toolsIndex (snd bound_downgraded) = [demo_document]"
  "tools (snd bound_keyword) = [(str ''srv::a::b'', demo_entry)]"
  by (simp_all add: bound_embeddings_def bound_downgraded_def bound_keyword_def embeddings_proxy_def
      new_SmartMCPProxy_def demo_client_def or_else_def str_def)

section \<open>Properties of the embedding client\<close>

lemma filter_same_key_distinct:
  "distinct (map f zs) \<Longrightarrow> k \<in> set zs \<Longrightarrow> filter (\<lambda>x. f k = f x) zs = [k]"
proof (induction zs)
  case Nil
  then show ?case by simp
next
  case (Cons z zs)
  show ?case
  proof (cases "k = z")
    case True
    from Cons.prems(1) have "\<forall>x \<in> set zs. f z \<noteq> f x" by auto
    then have "filter (\<lambda>x. f z = f x) zs = []"
      by (simp add: filter_empty_conv)
    with True show ?thesis by simp
  next
    case False
    with Cons.prems have kz: "k \<in> set zs" by auto
    with Cons.prems(1) have "f k \<noteq> f z" by (auto simp: image_iff)
    with Cons kz show ?thesis by simp
  qed
qed

lemma sort_key_order_independent:
  assumes "mset xs = mset ys" and "distinct (map f xs)"
  shows "sort_key f xs = sort_key f ys"
proof (rule properties_for_sort_key)
  show "mset (sort_key f ys) = mset xs"
    using assms(1) by simp
  show "sorted (map f (sort_key f ys))"
    by simp
  fix k
  assume k: "k \<in> set (sort_key f ys)"
  have "mset (map f (sort_key f ys)) = mset (map f xs)"
    using assms(1) by simp
  then have d: "distinct (map f (sort_key f ys))"
    using assms(2) mset_eq_imp_distinct_iff by blast
  from k assms(1) have kx: "k \<in> set xs"
    using mset_eq_setD by fastforce
  show "filter (\<lambda>x. f k = f x) (sort_key f ys) = filter (\<lambda>x. f k = f x) xs"
    using filter_same_key_distinct[OF d k] filter_same_key_distinct[OF assms(2) kx] by simp
qed

lemma generateEmbeddings_answers:
  assumes "texts \<noteq> []" "length texts \<le> 100" "answers fetch' (embeddings_request c texts) entries"
  shows "generateEmbeddings fetch' c texts =
     (Inr (map EmbeddingDatum.embedding (sort_key index entries)), [embeddings_request c texts])"
  using assms
  by (auto simp: generateEmbeddings_def answers_def Let_def
      split: FetchResult.splits option.splits)

lemma generateEmbeddings_fails:
  assumes "texts \<noteq> []" "length texts \<le> 100" "fails fetch' (embeddings_request c texts)"
  shows "\<exists>e. generateEmbeddings fetch' c texts = (Inl e, [embeddings_request c texts])"
  using assms
  by (auto simp: generateEmbeddings_def fails_def Let_def split: FetchResult.splits)

text \<open>
  C9. The batch contract of the embedding client: the empty input gives the empty
  list and sends nothing; more than 100 texts fail with the batch-too-large error, and
  nothing is sent; exactly 100 texts are accepted (the request is sent); for an
  accepted input that the endpoint answers, the vectors returned are those of the
  entries sorted by \<open>index\<close>, whatever the order of the entries in the response: two
  answers with the same entries, of distinct indices, in any two orders give the same
  vectors.
\<close>

theorem generateEmbeddings_batch_contract:
  "generateEmbeddings fetch' c [] = (Inr [], []) \<and>
   (100 < length texts \<longrightarrow> generateEmbeddings fetch' c texts = (Inl BatchTooLarge, [])) \<and>
   (length texts = 100 \<longrightarrow>
      fst (generateEmbeddings fetch' c texts) \<noteq> Inl BatchTooLarge
      \<and> snd (generateEmbeddings fetch' c texts) = [embeddings_request c texts]) \<and>
   (texts \<noteq> [] \<and> length texts \<le> 100 \<and> answers fetch' (embeddings_request c texts) entries \<longrightarrow>
      fst (generateEmbeddings fetch' c texts)
        = Inr (map EmbeddingDatum.embedding (sort_key index entries))
      \<and> sorted (map index (sort_key index entries))
      \<and> mset (sort_key index entries) = mset entries) \<and>
   (texts \<noteq> [] \<and> length texts \<le> 100
      \<and> answers fetch' (embeddings_request c texts) entries
      \<and> answers fetch'' (embeddings_request c texts) entries'
      \<and> mset entries' = mset entries \<and> distinct (map index entries) \<longrightarrow>
      fst (generateEmbeddings fetch'' c texts) = fst (generateEmbeddings fetch' c texts))"
proof -
  have empty: "generateEmbeddings fetch' c [] = (Inr [], [])"
    by (simp add: generateEmbeddings_def)
  have large: "generateEmbeddings fetch' c texts = (Inl BatchTooLarge, [])"
    if "100 < length texts"
    using that by (auto simp: generateEmbeddings_def)
  have hundred: "fst (generateEmbeddings fetch' c texts) \<noteq> Inl BatchTooLarge
      \<and> snd (generateEmbeddings fetch' c texts) = [embeddings_request c texts]"
    if "length texts = 100"
    using that
    by (auto simp: generateEmbeddings_def Let_def split: FetchResult.splits option.splits)
  have ordered: "fst (generateEmbeddings fetch' c texts)
        = Inr (map EmbeddingDatum.embedding (sort_key index entries))
      \<and> sorted (map index (sort_key index entries))
      \<and> mset (sort_key index entries) = mset entries"
    if "texts \<noteq> [] \<and> length texts \<le> 100 \<and> answers fetch' (embeddings_request c texts) entries"
    using that generateEmbeddings_answers[of texts fetch' c entries] by simp
  have any_order: "fst (generateEmbeddings fetch'' c texts) = fst (generateEmbeddings fetch' c texts)"
    if a: "texts \<noteq> [] \<and> length texts \<le> 100
      \<and> answers fetch' (embeddings_request c texts) entries
      \<and> answers fetch'' (embeddings_request c texts) entries'
      \<and> mset entries' = mset entries \<and> distinct (map index entries)"
  proof -
    from a have "sort_key index entries = sort_key index entries'"
      by (intro sort_key_order_independent) simp_all
    with a generateEmbeddings_answers[of texts fetch' c entries]
      generateEmbeddings_answers[of texts fetch'' c entries']
    show ?thesis by simp
  qed
  from empty large hundred ordered any_order show ?thesis
    by blast
qed

text \<open>
  C9 on concrete inputs: 101 texts, 100 texts, and two texts answered in order and in
  reverse order.
\<close>

theorem generateEmbeddings_batch_contract_witness:
  "generateEmbeddings endpoint_ordered demo_client [] = (Inr [], []) \<and>
   100 < length (replicate 101 (str ''x'')) \<and>
   generateEmbeddings endpoint_ordered demo_client (replicate 101 (str ''x''))
     = (Inl BatchTooLarge, []) \<and>
   length (replicate 100 (str ''x'')) = 100 \<and>
   fst (generateEmbeddings endpoint_ordered demo_client (replicate 100 (str ''x'')))
     \<noteq> Inl BatchTooLarge \<and>
   snd (generateEmbeddings endpoint_ordered demo_client (replicate 100 (str ''x'')))
     = [embeddings_request demo_client (replicate 100 (str ''x''))] \<and>
   [str ''x'', str ''y''] \<noteq> [] \<and> length [str ''x'', str ''y''] \<le> 100 \<and>
   answers endpoint_ordered (embeddings_request demo_client [str ''x'', str ''y''])
     [\<lparr>EmbeddingDatum.embedding = [1, 0], index = 0\<rparr>,
      \<lparr>EmbeddingDatum.embedding = [1, 1], index = 1\<rparr>] \<and>
   answers endpoint_reversed (embeddings_request demo_client [str ''x'', str ''y''])
     [\<lparr>EmbeddingDatum.embedding = [1, 1], index = 1\<rparr>,
      \<lparr>EmbeddingDatum.embedding = [1, 0], index = 0\<rparr>] \<and>
   mset [\<lparr>EmbeddingDatum.embedding = [1, 1], index = 1\<rparr>,
         \<lparr>EmbeddingDatum.embedding = [1, 0], index = 0\<rparr>]
     = mset [\<lparr>EmbeddingDatum.embedding = [1, 0], index = 0\<rparr>,
             \<lparr>EmbeddingDatum.embedding = [1, 1], index = 1\<rparr>] \<and>
   distinct (map index [\<lparr>EmbeddingDatum.embedding = [1, 0], index = 0\<rparr>,
                        \<lparr>EmbeddingDatum.embedding = [1, 1], index = 1\<rparr>]) \<and>
   fst (generateEmbeddings endpoint_reversed demo_client [str ''x'', str ''y''])
     = Inr [[1, 0], [1, 1]] \<and>
   fst (generateEmbeddings endpoint_reversed demo_client [str ''x'', str ''y''])
     = fst (generateEmbeddings endpoint_ordered demo_client [str ''x'', str ''y''])"
proof -
  let ?d0 = "\<lparr>EmbeddingDatum.embedding = [1, 0], index = 0\<rparr>"
  let ?d1 = "\<lparr>EmbeddingDatum.embedding = [1, 1], index = 1\<rparr>"
  let ?xy = "[str ''x'', str ''y'']"
  have upt2: "[0..<2] = [0, 1]"
    by (simp add: upt_rec)
  have ordered: "answers endpoint_ordered (embeddings_request demo_client ?xy) [?d0, ?d1]"
    by (simp add: answers_def endpoint_ordered_def embeddings_request_def ok_def upt2)
  have reversed: "answers endpoint_reversed (embeddings_request demo_client ?xy) [?d1, ?d0]"
    by (simp add: answers_def endpoint_reversed_def embeddings_request_def ok_def upt2)
  have perm: "mset [?d1, ?d0] = mset [?d0, ?d1]"
    by (simp add: add_mset_commute)
  have dist: "distinct (map index [?d0, ?d1])"
    by simp
  note big = generateEmbeddings_batch_contract
    [of endpoint_ordered demo_client "replicate 101 (str ''x'')"]
  note hundred = generateEmbeddings_batch_contract
    [of endpoint_ordered demo_client "replicate 100 (str ''x'')"]
  note sorted = generateEmbeddings_batch_contract
    [of endpoint_reversed demo_client ?xy "[?d1, ?d0]"]
  note order = generateEmbeddings_batch_contract
    [of endpoint_ordered demo_client ?xy "[?d0, ?d1]" endpoint_reversed "[?d1, ?d0]"]
  from big have c0: "generateEmbeddings endpoint_ordered demo_client [] = (Inr [], [])"
    and c1: "generateEmbeddings endpoint_ordered demo_client (replicate 101 (str ''x''))
     = (Inl BatchTooLarge, [])"
    by simp_all
  from hundred have c2: "fst (generateEmbeddings endpoint_ordered demo_client (replicate 100 (str ''x'')))
     \<noteq> Inl BatchTooLarge"
    and c3: "snd (generateEmbeddings endpoint_ordered demo_client (replicate 100 (str ''x'')))
     = [embeddings_request demo_client (replicate 100 (str ''x''))]"
    by simp_all
  from sorted reversed have c4: "fst (generateEmbeddings endpoint_reversed demo_client ?xy)
     = Inr [[1, 0], [1, 1]]"
    by simp
  from order ordered reversed perm dist
  have c5: "fst (generateEmbeddings endpoint_reversed demo_client ?xy)
     = fst (generateEmbeddings endpoint_ordered demo_client ?xy)"
    by simp
  from c0 c1 c2 c3 c4 c5 ordered reversed perm dist show ?thesis
    by simp
qed

section \<open>Properties of the embedding repository\<close>

lemma new_Map_None: "new_Map ps k = None \<longleftrightarrow> k \<notin> fst ` set ps"
  by (simp add: new_Map_def map_of_eq_None_iff)

lemma new_Map_SomeD: "new_Map ps k = Some v \<Longrightarrow> (k, v) \<in> set ps"
  unfolding new_Map_def by (drule map_of_SomeD) simp

lemma unique_key_same_row:
  "unique_key rows \<Longrightarrow> r \<in> set rows \<Longrightarrow> r' \<in> set rows \<Longrightarrow> row_key r = row_key r' \<Longrightarrow> r = r'"
  unfolding unique_key_def by (auto simp: distinct_map dest: inj_onD)

lemma needsRegeneration_stale:
  fixes ns mn :: jsstring
  assumes unique: "unique_key rows"
    and member: "toolUuid t \<in> set toolUuids"
    and nonempty: "embeddingText t \<noteq> []"
  defines "existingMap \<equiv> new_Map (map (\<lambda>r. (Row.tool_uuid r, Row.embedding_text r))
      (filter (\<lambda>r. namespace_uuid r = ns \<and> model_name r = mn \<and> Row.tool_uuid r \<in> set toolUuids) rows))"
  shows "(let storedText = existingMap (toolUuid t) in
          if \<not> truthy storedText then True
          else if storedText \<noteq> Some (embeddingText t) then True
          else False) \<longleftrightarrow> stale rows ns mn t"
proof (cases "existingMap (toolUuid t)")
  case None
  then have "\<forall>r \<in> set rows. row_key r \<noteq> (toolUuid t, ns, mn)"
    using member unfolding existingMap_def new_Map_None row_key_def by force
  with None show ?thesis
    by (simp add: stale_def)
next
  case (Some s)
  from new_Map_SomeD[OF Some[unfolded existingMap_def]]
  obtain r where r: "r \<in> set rows" "row_key r = (toolUuid t, ns, mn)" "Row.embedding_text r = s"
    unfolding row_key_def by auto
  have only: "r' = r" if "r' \<in> set rows" "row_key r' = (toolUuid t, ns, mn)" for r'
    using unique_key_same_row[OF unique that(1) r(1)] that(2) r(2) by simp
  have "stale rows ns mn t \<longleftrightarrow> s \<noteq> embeddingText t"
    unfolding stale_def using r only by blast
  with Some nonempty show ?thesis
    by auto
qed

lemma getToolsNeedingEmbeddings_spec:
  assumes "unique_key rows" and "[] \<notin> set (map embeddingText requests)"
  shows "getToolsNeedingEmbeddings rows requests ns mn
      = spec_tools_needing_embeddings rows requests ns mn"
proof (cases "requests = []")
  case True
  then show ?thesis
    by (simp add: getToolsNeedingEmbeddings_def spec_tools_needing_embeddings_def)
next
  case False
  then have some: "length requests \<noteq> 0"
    by simp
  have same: "filter (\<lambda>tool.
           if \<not> truthy (new_Map (map (\<lambda>r. (Row.tool_uuid r, Row.embedding_text r))
                 (filter (\<lambda>r. namespace_uuid r = ns \<and> model_name r = mn
                     \<and> Row.tool_uuid r \<in> set (map toolUuid requests)) rows)) (toolUuid tool))
           then True
           else if new_Map (map (\<lambda>r. (Row.tool_uuid r, Row.embedding_text r))
                 (filter (\<lambda>r. namespace_uuid r = ns \<and> model_name r = mn
                     \<and> Row.tool_uuid r \<in> set (map toolUuid requests)) rows)) (toolUuid tool)
                \<noteq> Some (embeddingText tool) then True
           else False) requests
      = filter (stale rows ns mn) requests"
  proof (rule filter_cong[OF refl])
    fix t assume "t \<in> set requests"
    with assms(2) have "toolUuid t \<in> set (map toolUuid requests)" and "embeddingText t \<noteq> []"
      by force+
    from needsRegeneration_stale[unfolded Let_def, OF assms(1) this]
    show "(if \<not> truthy (new_Map (map (\<lambda>r. (Row.tool_uuid r, Row.embedding_text r))
                 (filter (\<lambda>r. namespace_uuid r = ns \<and> model_name r = mn
                     \<and> Row.tool_uuid r \<in> set (map toolUuid requests)) rows)) (toolUuid t))
           then True
           else if new_Map (map (\<lambda>r. (Row.tool_uuid r, Row.embedding_text r))
                 (filter (\<lambda>r. namespace_uuid r = ns \<and> model_name r = mn
                     \<and> Row.tool_uuid r \<in> set (map toolUuid requests)) rows)) (toolUuid t)
                \<noteq> Some (embeddingText t) then True
           else False) = stale rows ns mn t" .
  qed
  show ?thesis
    unfolding getToolsNeedingEmbeddings_def spec_tools_needing_embeddings_def Let_def
    by (simp only: some if_False same)
qed

lemma up_to_date_not_stale:
  assumes "unique_key rows" and "up_to_date rows ns mn requests" and "t \<in> set requests"
  shows "\<not> stale rows ns mn t"
proof -
  from assms(2,3) obtain r
    where r: "r \<in> set rows" "row_key r = (toolUuid t, ns, mn)"
      "Row.embedding_text r = embeddingText t"
    unfolding up_to_date_def list_all_iff by blast
  have "r' = r" if "r' \<in> set rows" "row_key r' = (toolUuid t, ns, mn)" for r'
    using unique_key_same_row[OF assms(1) that(1) r(1)] that(2) r(2) by simp
  with r show ?thesis
    unfolding stale_def by blast
qed

lemma getToolsNeedingEmbeddings_up_to_date:
  assumes "unique_key rows" and "[] \<notin> set (map embeddingText requests)"
    and "up_to_date rows ns mn requests"
  shows "getToolsNeedingEmbeddings rows requests ns mn = []"
proof -
  have "filter (stale rows ns mn) requests = []"
    using up_to_date_not_stale[OF assms(1,3)] by (simp add: filter_empty_conv)
  with getToolsNeedingEmbeddings_spec[OF assms(1,2)] show ?thesis
    by (simp add: spec_tools_needing_embeddings_def)
qed

lemma getToolsNeedingEmbeddings_one_changed:
  assumes unique: "unique_key rows" and nonempty: "[] \<notin> set (map embeddingText requests)"
    and current: "up_to_date rows ns mn requests"
    and i: "i < length requests" and text': "text' \<noteq> []" "text' \<noteq> embeddingText (requests ! i)"
  shows "getToolsNeedingEmbeddings rows (requests[i := (requests ! i)\<lparr>embeddingText := text'\<rparr>]) ns mn
      = [toolUuid (requests ! i)]"
proof -
  let ?y = "(requests ! i)\<lparr>embeddingText := text'\<rparr>"
  let ?requests = "requests[i := ?y]"
  have split: "?requests = take i requests @ ?y # drop (Suc i) requests"
    using i by (rule upd_conv_take_nth_drop)
  have "set ?requests \<subseteq> insert ?y (set requests)"
    by (rule set_update_subset_insert)
  with nonempty text'(1) have "[] \<notin> set (map embeddingText ?requests)"
    by auto
  from getToolsNeedingEmbeddings_spec[OF unique this]
  have "getToolsNeedingEmbeddings rows ?requests ns mn
      = map toolUuid (filter (stale rows ns mn) ?requests)"
    by (simp add: spec_tools_needing_embeddings_def)
  moreover have "filter (stale rows ns mn) (take i requests) = []"
    using up_to_date_not_stale[OF unique current] by (auto simp: filter_empty_conv dest: in_set_takeD)
  moreover have "filter (stale rows ns mn) (drop (Suc i) requests) = []"
    using up_to_date_not_stale[OF unique current] by (auto simp: filter_empty_conv dest: in_set_dropD)
  moreover have "stale rows ns mn ?y"
  proof -
    from current i obtain r
      where "r \<in> set rows" "row_key r = (toolUuid (requests ! i), ns, mn)"
        "Row.embedding_text r = embeddingText (requests ! i)"
      unfolding up_to_date_def list_all_iff using nth_mem by blast
    with text'(2) show ?thesis
      unfolding stale_def by auto
  qed
  ultimately show ?thesis
    by (simp add: split)
qed

lemma embeddingText_of_nonempty: "embeddingText_of t truncatedDesc \<noteq> []"
  by (simp add: embeddingText_of_def str_def)

lemma toolsWithTexts_of_nonempty:
  "toolsWithTexts_of config indexed = Some toolsWithTexts \<Longrightarrow>
   [] \<notin> set (map embeddingText (map Requested.truncate toolsWithTexts))"
proof (induction indexed arbitrary: toolsWithTexts)
  case Nil
  then show ?case by simp
next
  case (Cons t ts)
  from Cons.prems obtain truncatedDesc rest
    where rest: "toolsWithTexts_of config ts = Some rest"
      and eq: "toolsWithTexts = \<lparr>toolUuid = toolUuid t,
          embeddingText = embeddingText_of t truncatedDesc, ToolWithText.tool = t\<rparr> # rest"
    by (auto split: option.splits)
  from Cons.IH[OF rest] embeddingText_of_nonempty[of t truncatedDesc] show ?case
    unfolding eq by (simp add: Requested.truncate_def)
qed

lemma same_key_row_key:
  "same_key e r \<longleftrightarrow> row_key r = (toolUuid e, EmbeddingInput.namespaceUuid e, EmbeddingInput.modelName e)"
  by (auto simp: same_key_def row_key_def)

lemma row_key_row_of:
  "row_key (row_of e) = (toolUuid e, EmbeddingInput.namespaceUuid e, EmbeddingInput.modelName e)"
  by (simp add: row_key_def row_of_def)

lemma upsert_unique_key: "unique_key rows \<Longrightarrow> unique_key (upsert e rows)"
proof (cases "\<exists>r \<in> set rows. same_key e r")
  case True
  have "map row_key (map (\<lambda>r. if same_key e r then row_of e else r) rows) = map row_key rows"
    by (simp add: same_key_row_key row_key_row_of)
  moreover assume "unique_key rows"
  ultimately show ?thesis
    using True by (simp add: upsert_def unique_key_def del: map_map)
next
  case False
  moreover assume "unique_key rows"
  ultimately show ?thesis
    by (auto simp: upsert_def unique_key_def same_key_row_key row_key_row_of)
qed

lemma upsertEmbeddings_unique_key:
  "unique_key rows \<Longrightarrow> unique_key (upsertEmbeddings rows inputs)"
  unfolding upsertEmbeddings_def
  by (induction inputs arbitrary: rows) (simp_all add: upsert_unique_key)

lemma rebind_demo:
  "(case indexTools services_up (empty_world, embeddings_proxy) [demo_tool, other_tool] of
      None \<Rightarrow> False
    | Some bound \<Rightarrow>
        map body_input (sent (fst bound))
          = [[str ''a::b: Alpha beta.'' @ [0x000A] @ str ''Parameters: none'',
              str ''commit: Create a git commit.'' @ [0x000A] @ str ''Parameters: The message.'']] \<and>
        indexTools services_up bound [demo_tool, other_tool] = Some bound \<and>
        (case indexTools services_up bound [changed_tool, other_tool] of
           None \<Rightarrow> False
         | Some rebound \<Rightarrow>
             map body_input (sent (fst rebound))
               = map body_input (sent (fst bound))
                   @ [[str ''a::b: Gamma delta.'' @ [0x000A] @ str ''Parameters: none'']]))"
  by code_simp

text \<open>
  C5. On a table that satisfies its unique constraint, and for requested texts that are
  not empty, \<open>getToolsNeedingEmbeddings\<close> returns exactly the requested tool_uuids, in the
  order requested, that have no stored row for \<open>(tool_uuid, namespace_uuid, model_name)\<close>
  or whose stored \<open>embedding_text\<close> differs from the requested one. The texts that
  \<open>generateAndStoreEmbeddings\<close> requests are never empty, and \<open>upsertEmbeddings\<close> keeps the
  constraint. Consequently, when every requested tool has its row with the text
  requested, nothing is returned, and when the text of one of them is then changed,
  exactly that tool is returned. After two tools are bound in embeddings mode (one
  request, with the two texts), binding them again sends nothing and changes nothing,
  and binding them with the description of the first changed sends one request, with
  the new text of the first alone.
\<close>

theorem getToolsNeedingEmbeddings_exact:
  "(unique_key rows \<and> [] \<notin> set (map embeddingText requests) \<longrightarrow>
      getToolsNeedingEmbeddings rows requests ns mn
        = spec_tools_needing_embeddings rows requests ns mn) \<and>
   (toolsWithTexts_of config indexed = Some toolsWithTexts \<longrightarrow>
      [] \<notin> set (map embeddingText (map Requested.truncate toolsWithTexts))) \<and>
   (unique_key rows \<longrightarrow> unique_key (upsertEmbeddings rows inputs)) \<and>
   (unique_key rows \<and> [] \<notin> set (map embeddingText requests) \<and> up_to_date rows ns mn requests \<longrightarrow>
      getToolsNeedingEmbeddings rows requests ns mn = [] \<and>
      (i < length requests \<and> text' \<noteq> [] \<and> text' \<noteq> embeddingText (requests ! i) \<longrightarrow>
         getToolsNeedingEmbeddings rows
           (requests[i := (requests ! i)\<lparr>embeddingText := text'\<rparr>]) ns mn
           = [toolUuid (requests ! i)])) \<and>
   (case indexTools services_up (empty_world, embeddings_proxy) [demo_tool, other_tool] of
      None \<Rightarrow> False
    | Some bound \<Rightarrow>
        map body_input (sent (fst bound))
          = [[str ''a::b: Alpha beta.'' @ [0x000A] @ str ''Parameters: none'',
              str ''commit: Create a git commit.'' @ [0x000A] @ str ''Parameters: The message.'']] \<and>
        indexTools services_up bound [demo_tool, other_tool] = Some bound \<and>
        (case indexTools services_up bound [changed_tool, other_tool] of
           None \<Rightarrow> False
         | Some rebound \<Rightarrow>
             map body_input (sent (fst rebound))
               = map body_input (sent (fst bound))
                   @ [[str ''a::b: Gamma delta.'' @ [0x000A] @ str ''Parameters: none'']]))"
  using getToolsNeedingEmbeddings_spec[of rows requests ns mn]
    toolsWithTexts_of_nonempty[of config indexed toolsWithTexts]
    upsertEmbeddings_unique_key[of rows inputs]
    getToolsNeedingEmbeddings_up_to_date[of rows requests ns mn]
    getToolsNeedingEmbeddings_one_changed[of rows requests ns mn i text']
    rebind_demo
  by blast

text \<open>
  The theorem on the table with the rows of \<open>u1\<close> and \<open>u2\<close>: of three requested tools the
  one whose text differs and the one without a row are returned; with the two stored
  texts requested nothing is returned; with the text of \<open>u2\<close> changed, \<open>u2\<close> is returned.
\<close>

theorem getToolsNeedingEmbeddings_exact_witness:
  "unique_key [stored (str ''u1'') (str ''t1''), stored (str ''u2'') (str ''t2'')] \<and>
   [] \<notin> set (map embeddingText
      [requested (str ''u1'') (str ''t1''), requested (str ''u2'') (str ''changed''),
       requested (str ''u3'') (str ''t3'')]) \<and>
   getToolsNeedingEmbeddings [stored (str ''u1'') (str ''t1''), stored (str ''u2'') (str ''t2'')]
     [requested (str ''u1'') (str ''t1''), requested (str ''u2'') (str ''changed''),
      requested (str ''u3'') (str ''t3'')] (str ''ns'') (str ''m'')
     = [str ''u2'', str ''u3''] \<and>
   [] \<notin> set (map embeddingText
      [requested (str ''u1'') (str ''t1''), requested (str ''u2'') (str ''t2'')]) \<and>
   up_to_date [stored (str ''u1'') (str ''t1''), stored (str ''u2'') (str ''t2'')]
     (str ''ns'') (str ''m'')
     [requested (str ''u1'') (str ''t1''), requested (str ''u2'') (str ''t2'')] \<and>
   getToolsNeedingEmbeddings [stored (str ''u1'') (str ''t1''), stored (str ''u2'') (str ''t2'')]
     [requested (str ''u1'') (str ''t1''), requested (str ''u2'') (str ''t2'')]
     (str ''ns'') (str ''m'') = [] \<and>
   getToolsNeedingEmbeddings [stored (str ''u1'') (str ''t1''), stored (str ''u2'') (str ''t2'')]
     [requested (str ''u1'') (str ''t1''), requested (str ''u2'') (str ''changed'')]
     (str ''ns'') (str ''m'') = [str ''u2'']"
proof -
  let ?rows = "[stored (str ''u1'') (str ''t1''), stored (str ''u2'') (str ''t2'')]"
  let ?three = "[requested (str ''u1'') (str ''t1''), requested (str ''u2'') (str ''changed''),
       requested (str ''u3'') (str ''t3'')]"
  let ?two = "[requested (str ''u1'') (str ''t1''), requested (str ''u2'') (str ''t2'')]"
  have unique: "unique_key ?rows"
    by code_simp
  have three: "[] \<notin> set (map embeddingText ?three)"
    by code_simp
  have two: "[] \<notin> set (map embeddingText ?two)"
    by code_simp
  have current: "up_to_date ?rows (str ''ns'') (str ''m'') ?two"
    by code_simp
  have rule: "spec_tools_needing_embeddings ?rows ?three (str ''ns'') (str ''m'')
      = [str ''u2'', str ''u3'']"
    by code_simp
  have changed: "str ''changed'' \<noteq> []" "str ''changed'' \<noteq> embeddingText (?two ! 1)"
    "?two[1 := (?two ! 1)\<lparr>embeddingText := str ''changed''\<rparr>]
       = [requested (str ''u1'') (str ''t1''), requested (str ''u2'') (str ''changed'')]"
    "toolUuid (?two ! 1) = str ''u2''"
    by (simp_all add: requested_def str_def)
  note three_requests = getToolsNeedingEmbeddings_exact
      [of ?rows ?three "str ''ns''" "str ''m''" DEFAULT_TRUNCATION_CONFIG "[]" "[]" "[]" 0 "[]"]
  note two_requests = getToolsNeedingEmbeddings_exact
      [of ?rows ?two "str ''ns''" "str ''m''" DEFAULT_TRUNCATION_CONFIG "[]" "[]" "[]" 1
          "str ''changed''"]
  from three_requests unique three
  have "getToolsNeedingEmbeddings ?rows ?three (str ''ns'') (str ''m'')
      = spec_tools_needing_embeddings ?rows ?three (str ''ns'') (str ''m'')"
    by blast
  then have a: "getToolsNeedingEmbeddings ?rows ?three (str ''ns'') (str ''m'')
      = [str ''u2'', str ''u3'']"
    unfolding rule .
  from two_requests unique two current
  have b: "getToolsNeedingEmbeddings ?rows ?two (str ''ns'') (str ''m'') = []"
    by blast
  have "1 < length ?two"
    by simp
  with two_requests unique two current changed(1,2)
  have "getToolsNeedingEmbeddings ?rows
      (?two[1 := (?two ! 1)\<lparr>embeddingText := str ''changed''\<rparr>]) (str ''ns'') (str ''m'')
      = [toolUuid (?two ! 1)]"
    by blast
  then have c: "getToolsNeedingEmbeddings ?rows
      [requested (str ''u1'') (str ''t1''), requested (str ''u2'') (str ''changed'')]
      (str ''ns'') (str ''m'') = [str ''u2'']"
    unfolding changed(3,4) .
  from unique three a two current b c show ?thesis
    by blast
qed

section \<open>Properties of execute\<close>

lemma find_None_member: "find P xs = None \<Longrightarrow> x \<in> set xs \<Longrightarrow> \<not> P x"
  by (induction xs) (auto split: if_splits)

lemma js_includes_infix: "js_includes (pre @ p @ post) p"
proof -
  let ?s = "pre @ p @ post"
  let ?P = "\<lambda>k. take (length p) (drop k ?s) = p"
  let ?range = "[min 0 (length ?s) ..< Suc (length ?s - length p)]"
  have "length pre \<in> set ?range"
    by simp
  moreover have "?P (length pre)"
    by simp
  ultimately have "find ?P ?range \<noteq> None"
    using find_None_member[of ?P ?range "length pre"] by blast
  then show ?thesis
    by (simp add: js_includes_def indexOf_def)
qed

text \<open>
  C8. \<open>execute(toolId, method, args)\<close>: when the key \<open>toolId::method\<close> is absent from the
  tool table, the call fails with an error whose message contains the method name and
  the hint to use \<open>discover\<close>, and the tool table and the lexical index are as before;
  when the key is present, the call gives what \<open>callTool\<close> of the entry's connection
  gives for the name \<open>method\<close> and the arguments \<open>args\<close>, and the proxy is as before.
\<close>

theorem execute_lookup:
  "(map_of (tools p) (tid @ str ''::'' @ m) = None \<longrightarrow>
      (\<exists>message. fst (execute callTool p tid m args) = Inl (ToolNotFound message)
         \<and> js_includes message m
         \<and> js_includes message (str ''Use '' @ [0x0027] @ str ''discover'' @ [0x0027]))
      \<and> tools (snd (execute callTool p tid m args)) = tools p
      \<and> toolsIndex (snd (execute callTool p tid m args)) = toolsIndex p) \<and>
   (map_of (tools p) (tid @ str ''::'' @ m) = Some entry \<longrightarrow>
      execute callTool p tid m args = (Inr (callTool (client entry) m args), p))"
proof (intro conjI impI)
  assume absent: "map_of (tools p) (tid @ str ''::'' @ m) = None"
  let ?message = "str ''Tool '' @ m @ str '' on server '' @ tid
                   @ str '' not found. Use '' @ [0x0027] @ str ''discover'' @ [0x0027]
                   @ str '' to find available tools.''"
  have e: "execute callTool p tid m args = (Inl (ToolNotFound ?message), p)"
    using absent by (simp add: execute_def)
  have "js_includes ?message m"
    using js_includes_infix[of "str ''Tool ''" m] by simp
  moreover have "js_includes ?message (str ''Use '' @ [0x0027] @ str ''discover'' @ [0x0027])"
    using js_includes_infix[of "str ''Tool '' @ m @ str '' on server '' @ tid @ str '' not found. ''"
        "str ''Use '' @ [0x0027] @ str ''discover'' @ [0x0027]" "str '' to find available tools.''"]
    by (simp add: str_def)
  ultimately show "\<exists>message. fst (execute callTool p tid m args) = Inl (ToolNotFound message)
         \<and> js_includes message m
         \<and> js_includes message (str ''Use '' @ [0x0027] @ str ''discover'' @ [0x0027])"
    using e by auto
  from e show "tools (snd (execute callTool p tid m args)) = tools p" by simp
  from e show "toolsIndex (snd (execute callTool p tid m args)) = toolsIndex p" by simp
next
  assume "map_of (tools p) (tid @ str ''::'' @ m) = Some entry"
  then show "execute callTool p tid m args = (Inr (callTool (client entry) m args), p)"
    by (simp add: execute_def)
qed

text \<open>
  C8 on the scenario: \<open>execute("nope", "nope", {})\<close> fails, and the bound tool is
  forwarded to its connection.
\<close>

theorem execute_lookup_witness:
  "map_of (tools (snd bound_keyword)) (str ''nope'' @ str ''::'' @ str ''nope'') = None \<and>
   (\<exists>message. fst (execute echo (snd bound_keyword) (str ''nope'') (str ''nope'') ())
        = Inl (ToolNotFound message)
      \<and> js_includes message (str ''nope'')
      \<and> js_includes message (str ''Use '' @ [0x0027] @ str ''discover'' @ [0x0027])) \<and>
   tools (snd (execute echo (snd bound_keyword) (str ''nope'') (str ''nope'') ()))
     = tools (snd bound_keyword) \<and>
   toolsIndex (snd (execute echo (snd bound_keyword) (str ''nope'') (str ''nope'') ()))
     = toolsIndex (snd bound_keyword) \<and>
   map_of (tools (snd bound_keyword)) (str ''srv'' @ str ''::'' @ str ''a::b'') = Some demo_entry \<and>
   execute echo (snd bound_keyword) (str ''srv'') (str ''a::b'') ()
     = (Inr (7, str ''a::b''), snd bound_keyword)"
proof -
  have absent: "map_of (tools (snd bound_keyword)) (str ''nope'' @ str ''::'' @ str ''nope'') = None"
    by (simp add: state_facts str_def)
  have present: "map_of (tools (snd bound_keyword)) (str ''srv'' @ str ''::'' @ str ''a::b'')
      = Some demo_entry"
    by (simp add: state_facts str_def)
  from absent present
    execute_lookup[of "snd bound_keyword" "str ''nope''" "str ''nope''" echo "()" demo_entry]
    execute_lookup[of "snd bound_keyword" "str ''srv''" "str ''a::b''" echo "()" demo_entry]
  show ?thesis
    by (simp add: echo_def demo_entry_def)
qed

section \<open>Properties of discover\<close>

lemma discoverWithEmbeddings_fails:
  assumes "fails (fetch sv) (embeddings_request c [q])"
  shows "\<exists>e. discoverWithEmbeddings sv c ns p q = (Inl e, [embeddings_request c [q]])"
proof -
  from generateEmbeddings_fails[of "[q]" "fetch sv" c] assms
  obtain e where "generateEmbeddings (fetch sv) c [q] = (Inl e, [embeddings_request c [q]])"
    by auto
  then show ?thesis
    by (simp add: discoverWithEmbeddings_def generateSingleEmbedding_def)
qed

lemma discover_falls_back:
  assumes "toolsIndex p \<noteq> []" "searchMode p = EMBEDDINGS" "embeddingClient p = Some c"
    "SmartMCPProxy.namespaceUuid p = Some ns" "ns \<noteq> []"
    "fails (fetch sv) (embeddings_request c [join (str '' '') qs])"
  shows "discover sv (w, p) qs =
     (discoverWithKeywords sv p (join (str '' '') qs),
      (w\<lparr>sent := sent w @ [embeddings_request c [join (str '' '') qs]]\<rparr>, p))"
proof -
  from discoverWithEmbeddings_fails[OF assms(6), of ns p]
  obtain e where "discoverWithEmbeddings sv c ns p (join (str '' '') qs)
      = (Inl e, [embeddings_request c [join (str '' '') qs]])"
    by auto
  with assms(1-5) show ?thesis
    by (simp add: discover_def Let_def)
qed

lemma discover_keyword_mode:
  assumes "searchMode p = KEYWORD"
  shows "discover sv (w, p) qs =
     (if toolsIndex p = [] then [] else discoverWithKeywords sv p (join (str '' '') qs), (w, p))"
  using assms by (auto simp: discover_def Let_def split: option.splits)

lemma discover_answer_world:
  "fst (discover sv (w, p) qs) = fst (discover sv (w', p) qs)"
  by (simp add: discover_def Let_def split: option.splits prod.splits sum.splits)

lemma discoverWithKeywords_mode:
  "discoverWithKeywords sv (p\<lparr>searchMode := mode\<rparr>) q = discoverWithKeywords sv p q"
  by (simp add: discoverWithKeywords_def mapHit_def[abs_def])

lemma embed_batches_down:
  assumes "\<forall>request. fails (fetch sv) request"
    and "embed_batches sv c texts i acc = (Inr r, requests)"
  shows "requests = []"
proof (cases "i < length texts")
  case False
  with assms(2) show ?thesis
    by (subst (asm) embed_batches.simps) simp
next
  case True
  let ?batch = "take 50 (drop i texts)"
  from True have "?batch \<noteq> []" "length ?batch \<le> 100" by auto
  with generateEmbeddings_fails[of ?batch "fetch sv" c] assms(1)
  obtain e where "generateEmbeddings (fetch sv) c ?batch = (Inl e, [embeddings_request c ?batch])"
    by auto
  with True assms(2) show ?thesis
    by (subst (asm) embed_batches.simps) (simp add: Let_def)
qed

lemma generateAndStoreEmbeddings_down:
  assumes down: "\<forall>request. fails (fetch sv) request"
    and run: "generateAndStoreEmbeddings sv c ns (w, p) indexed = Some (w', p')"
    and contacted: "sent w' \<noteq> sent w"
  shows "searchMode p' = KEYWORD"
proof -
  from run obtain tt where tt: "toolsWithTexts_of (truncationConfig p) indexed = Some tt"
    by (auto simp: generateAndStoreEmbeddings_def split: option.splits)
  let ?needing = "getToolsNeedingEmbeddings (table w) (map Requested.truncate tt) ns
      (SmartMCPProxy.modelName p)"
  let ?toEmbed = "filter (\<lambda>t. toolUuid t \<in> set ?needing) tt"
  obtain r requests where eb: "embed_batches sv c (map embeddingText ?toEmbed) 0 [] = (r, requests)"
    by (cases "embed_batches sv c (map embeddingText ?toEmbed) 0 []") auto
  show ?thesis
  proof (cases "length ?needing = 0")
    case True
    with run tt contacted show ?thesis
      by (simp add: generateAndStoreEmbeddings_def Let_def)
  next
    case False
    show ?thesis
    proof (cases r)
      case (Inl e)
      with run tt False eb show ?thesis
        by (auto simp: generateAndStoreEmbeddings_def Let_def)
    next
      case (Inr allEmbeddings)
      with embed_batches_down[OF down] eb have "requests = []" by auto
      with run tt False eb Inr contacted show ?thesis
        by (auto simp: generateAndStoreEmbeddings_def Let_def split: sum.splits)
    qed
  qed
qed

lemma indexTools_down:
  assumes down: "\<forall>request. fails (fetch sv) request"
    and run: "indexTools sv (w, p) batch = Some (w', p')"
    and contacted: "sent w' \<noteq> sent w"
  shows "searchMode p' = KEYWORD"
  using run contacted generateAndStoreEmbeddings_down[OF down _ contacted]
  by (auto simp: indexTools_def Let_def split: option.splits if_splits)

text \<open>
  C3. A discover call in embeddings mode whose embedding request fails (the endpoint
  rejects, or answers with a status such as 500) returns the array computed by the
  keyword search and raises nothing; it sends the one request and leaves the proxy,
  and so the search mode, as it was, so that the next discover call attempts the
  endpoint again. The session is downgraded to keyword mode at bind: when the endpoint
  is down and \<open>indexTools\<close> has contacted it, the mode after it is keyword. In keyword
  mode a discover call answers from the keyword search and sends nothing.
\<close>

theorem discover_fallback_policy:
  "(toolsIndex p \<noteq> [] \<and> searchMode p = EMBEDDINGS \<and> embeddingClient p = Some c
      \<and> SmartMCPProxy.namespaceUuid p = Some ns \<and> ns \<noteq> []
      \<and> fails (fetch sv) (embeddings_request c [join (str '' '') qs]) \<longrightarrow>
      discover sv (w, p) qs =
        (discoverWithKeywords sv p (join (str '' '') qs),
         (w\<lparr>sent := sent w @ [embeddings_request c [join (str '' '') qs]]\<rparr>, p))) \<and>
   ((\<forall>request. fails (fetch sv) request) \<and> indexTools sv (w, p) batch = Some (w', p')
      \<and> sent w' \<noteq> sent w \<longrightarrow>
      searchMode p' = KEYWORD) \<and>
   (searchMode p = KEYWORD \<longrightarrow>
      discover sv (w, p) qs =
        (if toolsIndex p = [] then [] else discoverWithKeywords sv p (join (str '' '') qs), (w, p)))"
  using discover_falls_back[of p c ns sv qs w] indexTools_down[of sv w p batch w' p']
    discover_keyword_mode[of p sv w qs]
  by blast


text \<open>
  The three parts of C3 on the scenario: the fallback of a discover call, the
  downgrade at bind with the endpoint answering 500, and discover after the downgrade.
\<close>

theorem discover_fallback_policy_witness:
  "toolsIndex (snd bound_embeddings) \<noteq> [] \<and> searchMode (snd bound_embeddings) = EMBEDDINGS
   \<and> embeddingClient (snd bound_embeddings) = Some demo_client
   \<and> SmartMCPProxy.namespaceUuid (snd bound_embeddings) = Some (str ''ns'') \<and> str ''ns'' \<noteq> []
   \<and> fails (fetch services_500) (embeddings_request demo_client [join (str '' '') [str ''alpha'']])
   \<and> discover services_500 (fst bound_embeddings, snd bound_embeddings) [str ''alpha''] =
        (keyword_answer,
         ((fst bound_embeddings)\<lparr>sent := sent (fst bound_embeddings)
              @ [embeddings_request demo_client [join (str '' '') [str ''alpha'']]]\<rparr>,
          snd bound_embeddings))
   \<and> (\<forall>request. fails (fetch services_500) request)
   \<and> indexTools services_500 (empty_world, embeddings_proxy) [demo_tool]
        = Some (fst bound_downgraded, snd bound_downgraded)
   \<and> sent (fst bound_downgraded) \<noteq> sent empty_world
   \<and> searchMode (snd bound_downgraded) = KEYWORD
   \<and> discover services_500 (fst bound_downgraded, snd bound_downgraded) [str ''alpha''] =
        (keyword_answer, (fst bound_downgraded, snd bound_downgraded))"
proof -
  have down: "\<forall>request. fails (fetch services_500) request"
    by (simp add: fails_def services_500_def endpoint_500_def ok_def)
  have bound: "indexTools services_500 (empty_world, embeddings_proxy) [demo_tool]
        = Some (fst bound_downgraded, snd bound_downgraded)"
    using bind_downgraded by simp
  have contacted: "sent (fst bound_downgraded) \<noteq> sent empty_world"
    by (simp add: bound_downgraded_def empty_world_def)
  have downgraded: "snd bound_downgraded = (snd bound_embeddings)\<lparr>searchMode := KEYWORD\<rparr>"
    by (simp add: bound_downgraded_def bound_embeddings_def)
  have q: "join (str '' '') [str ''alpha''] = str ''alpha''"
    by simp
  have ns: "str ''ns'' \<noteq> []"
    by (simp add: str_def)
  have kw: "discoverWithKeywords services_500 (snd bound_downgraded) (join (str '' '') [str ''alpha''])
      = keyword_answer"
    unfolding downgraded discoverWithKeywords_mode q by (rule keywords_demo)
  note a = discover_fallback_policy[of "snd bound_embeddings" demo_client "str ''ns''" services_500
      "[str ''alpha'']" "fst bound_embeddings"]
  note b = discover_fallback_policy[of embeddings_proxy _ _ services_500 _ empty_world "[demo_tool]"
      "fst bound_downgraded" "snd bound_downgraded"]
  note c = discover_fallback_policy[of "snd bound_downgraded" _ _ services_500 "[str ''alpha'']"
      "fst bound_downgraded"]
  from a down ns have first: "discover services_500 (fst bound_embeddings, snd bound_embeddings) [str ''alpha''] =
        (keyword_answer,
         ((fst bound_embeddings)\<lparr>sent := sent (fst bound_embeddings)
              @ [embeddings_request demo_client [join (str '' '') [str ''alpha'']]]\<rparr>,
          snd bound_embeddings))"
    by (simp add: state_facts keywords_demo)
  from b down bound contacted have mode: "searchMode (snd bound_downgraded) = KEYWORD"
    by blast
  from c mode kw have later: "discover services_500 (fst bound_downgraded, snd bound_downgraded) [str ''alpha''] =
        (keyword_answer, (fst bound_downgraded, snd bound_downgraded))"
    by (simp add: state_facts)
  from down bound contacted first mode later ns show ?thesis
    by (simp add: state_facts)
qed

text \<open>
  C3, as stated, fails: after a discover call that fell back because the endpoint
  answered 500, the session is still in embeddings mode; a second discover call sends a
  second request to the endpoint, and with the endpoint up again it is answered by the
  vector path.
\<close>

theorem discover_retries_endpoint_counterexample:
  "searchMode (snd bound_embeddings) = EMBEDDINGS \<and>
   fst (discover services_500 bound_embeddings [str ''alpha'']) = keyword_answer \<and>
   searchMode (snd (snd (discover services_500 bound_embeddings [str ''alpha'']))) = EMBEDDINGS \<and>
   sent (fst (snd (discover services_500 bound_embeddings [str ''alpha''])))
     = sent (fst bound_embeddings) @ [embeddings_request demo_client [str ''alpha'']] \<and>
   sent (fst (snd (discover services_500
       (snd (discover services_500 bound_embeddings [str ''alpha''])) [str ''alpha''])))
     = sent (fst bound_embeddings)
         @ [embeddings_request demo_client [str ''alpha''], embeddings_request demo_client [str ''alpha'']] \<and>
   fst (discover services_up
       (snd (discover services_500 bound_embeddings [str ''alpha''])) [str ''alpha''])
     = vector_answer"
proof -
  have f: "fails (fetch services_500) (embeddings_request demo_client [join (str '' '') [str ''alpha'']])"
    by (simp add: fails_def services_500_def endpoint_500_def ok_def)
  have ns: "str ''ns'' \<noteq> []"
    by (simp add: str_def)
  have step: "discover services_500 (w, snd bound_embeddings) [str ''alpha''] =
      (keyword_answer,
       (w\<lparr>sent := sent w @ [embeddings_request demo_client [str ''alpha'']]\<rparr>, snd bound_embeddings))"
    for w
    using discover_falls_back[of "snd bound_embeddings" demo_client "str ''ns''" services_500
        "[str ''alpha'']" w] f ns
    by (simp add: state_facts keywords_demo)
  have b: "bound_embeddings = (fst bound_embeddings, snd bound_embeddings)"
    by simp
  have first: "discover services_500 bound_embeddings [str ''alpha''] =
      (keyword_answer,
       ((fst bound_embeddings)\<lparr>sent := sent (fst bound_embeddings)
            @ [embeddings_request demo_client [str ''alpha'']]\<rparr>, snd bound_embeddings))"
    by (subst b) (rule step)
  have again: "fst (discover services_up
       (snd (discover services_500 bound_embeddings [str ''alpha''])) [str ''alpha''])
     = vector_answer"
    unfolding first snd_conv
    using discover_vector discover_answer_world[of services_up _ "snd bound_embeddings" _
        "fst bound_embeddings"]
    by simp
  show ?thesis
    unfolding again
    by (simp add: first step state_facts)
qed

text \<open>
  C1, evaluated where the code breaks it. The tool \<open>a::b\<close> of the server \<open>srv\<close> is bound
  in embeddings mode, under the key \<open>srv::a::b\<close>. On the vector path \<open>discover\<close>
  returns the descriptor with \<open>toolId = srv\<close> and \<open>method = a\<close>: the key is split on
  \<open>::\<close> and the third piece is dropped. \<open>execute\<close> of that pair looks up \<open>srv::a\<close> and
  fails with the tool-not-found error, where the claim has it reach the entry of the
  tool; only the pair \<open>(srv, a::b)\<close> reaches the entry and its connection 7.
\<close>

theorem discover_execute_mismatch:
  "indexTools services_up (empty_world, embeddings_proxy) [demo_tool] = Some bound_embeddings \<and>
   map_of (tools (snd bound_embeddings)) (str ''srv::a::b'') = Some demo_entry \<and>
   fst (discover services_up bound_embeddings [str ''alpha'']) =
     [[(str ''toolId'', FString (str ''srv'')),
       (str ''method'', FString (str ''a'')),
       (str ''description'', FString (str ''Alpha beta.'')),
       (str ''inputSchema'', FSchema \<lparr>properties = None\<rparr>),
       (str ''score'', FNumber 0.9)]] \<and>
   fst (execute echo (snd bound_embeddings) (str ''srv'') (str ''a'') ())
     = Inl (ToolNotFound (str ''Tool a on server srv not found. Use '' @ [0x0027]
          @ str ''discover'' @ [0x0027] @ str '' to find available tools.'')) \<and>
   fst (execute echo (snd bound_embeddings) (str ''srv'') (str ''a::b'') ()) = Inr (7, str ''a::b'')"
proof -
  have "fst (execute echo (snd bound_embeddings) (str ''srv'') (str ''a'') ())
     = Inl (ToolNotFound (str ''Tool a on server srv not found. Use '' @ [0x0027]
          @ str ''discover'' @ [0x0027] @ str '' to find available tools.''))"
    by code_simp
  moreover have "fst (execute echo (snd bound_embeddings) (str ''srv'') (str ''a::b'') ())
      = Inr (7, str ''a::b'')"
    by code_simp
  moreover have "map_of (tools (snd bound_embeddings)) (str ''srv::a::b'') = Some demo_entry"
    by (simp add: state_facts)
  ultimately show ?thesis
    using bind_embeddings discover_vector by (simp add: vector_answer_def)
qed

text \<open>
  C2, evaluated where the code breaks it. For the same tool and query, the objects of
  the array that \<open>discover\<close> returns have the fields \<open>toolId\<close>, \<open>method\<close>, \<open>description\<close>,
  \<open>inputSchema\<close> and \<open>score\<close> on the vector path, and the first four only on the keyword
  path: the vector path encodes the result of the selector as it is.
\<close>

theorem discover_vector_keeps_score:
  "map (map fst) (fst (discover services_up bound_embeddings [str ''alpha''])) =
     [[str ''toolId'', str ''method'', str ''description'', str ''inputSchema'', str ''score'']] \<and>
   map (map fst) (fst (discover services_up bound_keyword [str ''alpha''])) =
     [[str ''toolId'', str ''method'', str ''description'', str ''inputSchema'']]"
  using discover_vector discover_keyword by (simp add: vector_answer_def keyword_answer_def)

end
